theory Spec2Isabelle
  imports Main
begin

section \<open>JavaScript strings\<close>

text \<open>
  A JavaScript string is a sequence of UTF-16 code units. The repository's fallback
  templates contain the bullet U+2022, and \<^verbatim>\<open>String.prototype.trim\<close> removes code units
  beyond Latin-1, so a string is modelled as the list of its code units and an ASCII
  literal \<^verbatim>\<open>'abc'\<close> of the source is written \<open>lit ''abc''\<close>.
\<close>

type_synonym js_string = "nat list"

definition lit :: "string \<Rightarrow> js_string" where
  "lit s = map of_char s"

text \<open>
  A value that is a string, \<^verbatim>\<open>undefined\<close> or \<^verbatim>\<open>null\<close> is a \<open>js_string option\<close>.
  It is truthy when it is a non-empty string (\<^verbatim>\<open>!x\<close> is its negation), and
  \<^verbatim>\<open>a || b\<close> is \<open>a\<close> when \<open>a\<close> is truthy and \<open>b\<close> otherwise.
\<close>

definition truthy :: "js_string option \<Rightarrow> bool" where
  "truthy v = (case v of None \<Rightarrow> False | Some s \<Rightarrow> s \<noteq> [])"

definition js_or :: "js_string option \<Rightarrow> js_string option \<Rightarrow> js_string option" where
  "js_or a b = (if truthy a then a else b)"

text \<open>
  \<^verbatim>\<open>String.prototype.trim\<close> strips the code units of ECMAScript's WhiteSpace and
  LineTerminator productions from both ends.
\<close>

definition is_js_whitespace :: "nat \<Rightarrow> bool" where
  "is_js_whitespace c \<longleftrightarrow>
     c \<in> {0x9, 0xA, 0xB, 0xC, 0xD, 0x20, 0xA0, 0x1680, 0x2028, 0x2029,
          0x202F, 0x205F, 0x3000, 0xFEFF} \<or> (0x2000 \<le> c \<and> c \<le> 0x200A)"

definition js_trim :: "js_string \<Rightarrow> js_string" where
  "js_trim s = rev (dropWhile is_js_whitespace (rev (dropWhile is_js_whitespace s)))"

text \<open>
  \<^verbatim>\<open>str.replace(pattern, replacement)\<close> with a string pattern replaces the first
  occurrence only, and expands the patterns \<^verbatim>\<open>$$\<close>, \<^verbatim>\<open>$&\<close>, \<^verbatim>\<open>$`\<close> and \<^verbatim>\<open>$'\<close>
  of the replacement (ECMAScript's GetSubstitution; with a string pattern there are
  no capture groups, so every other \<^verbatim>\<open>$\<close> stands for itself).
\<close>

fun getSubstitution :: "js_string \<Rightarrow> js_string \<Rightarrow> js_string \<Rightarrow> js_string \<Rightarrow> js_string" where
  "getSubstitution matched preceding following [] = []"
| "getSubstitution matched preceding following [c] = [c]"
| "getSubstitution matched preceding following (c # d # r) =
     (if c = 0x24 \<and> d = 0x24 then 0x24 # getSubstitution matched preceding following r
      else if c = 0x24 \<and> d = 0x26 then matched @ getSubstitution matched preceding following r
      else if c = 0x24 \<and> d = 0x60 then preceding @ getSubstitution matched preceding following r
      else if c = 0x24 \<and> d = 0x27 then following @ getSubstitution matched preceding following r
      else c # getSubstitution matched preceding following (d # r))"

fun replace_from :: "js_string \<Rightarrow> js_string \<Rightarrow> js_string \<Rightarrow> js_string \<Rightarrow> js_string" where
  "replace_from preceding pat repl [] =
     (if pat = [] then preceding @ getSubstitution pat preceding [] repl else preceding)"
| "replace_from preceding pat repl (c # r) =
     (if take (length pat) (c # r) = pat
      then preceding @ getSubstitution pat preceding (drop (length pat) (c # r)) repl
             @ drop (length pat) (c # r)
      else replace_from (preceding @ [c]) pat repl r)"

definition js_replace :: "js_string \<Rightarrow> js_string \<Rightarrow> js_string \<Rightarrow> js_string" where
  "js_replace s pat repl = replace_from [] pat repl s"

text \<open>\<^verbatim>\<open>String.prototype.includes\<close>: the argument occurs as a contiguous run.\<close>

fun js_includes :: "js_string \<Rightarrow> js_string \<Rightarrow> bool" where
  "js_includes [] sub = (sub = [])"
| "js_includes (c # r) sub = (take (length sub) (c # r) = sub \<or> js_includes r sub)"

section \<open>HTTP responses of the processing server\<close>

text \<open>
  \<^verbatim>\<open>res.status(n).json(body)\<close>. The bodies of the server share the fields
  \<^verbatim>\<open>success\<close>, \<^verbatim>\<open>message\<close> and \<^verbatim>\<open>error\<close>, of which the last two may be absent;
  the \<^verbatim>\<open>data\<close> object differs by endpoint. The \<^verbatim>\<open>details\<close> field, sent in development mode only, and the
  wall-clock \<^verbatim>\<open>totalTime\<close> are left out.
\<close>

datatype data =
    AlreadyProcessed
      (d_noteId: js_string) (d_processedText: "js_string option")
      (d_tokensUsed: "nat option") (d_processingTime: "nat option")
  | LimitInfo
      (d_monthlyCount: nat) (d_notesRemaining: int) (d_subscriptionTier: js_string)
  | Processed
      (p_noteId: js_string) (p_originalText: js_string) (p_processedText: js_string)
      (p_noteType: js_string) (p_processingStatus: js_string) (p_tokensUsed: nat)
      (p_processingTime: nat) (p_openaiSuccess: bool) (p_model: js_string)
  | StatusInfo
      (s_noteId: js_string) (s_processingStatus: js_string) (s_tokensUsed: "nat option")
      (s_processingTime: "nat option") (s_hasProcessedText: bool)

record response =
  status :: nat
  success :: bool
  message :: "js_string option"
  error :: "js_string option"
  data :: "data option"

definition failure :: "nat \<Rightarrow> string \<Rightarrow> string \<Rightarrow> response" where
  "failure code msg err =
     \<lparr>status = code, success = False, message = Some (lit msg), error = Some (lit err),
      data = None\<rparr>"

section \<open>Shared-secret authentication (middleware/auth.js)\<close>

record headers =
  x_api_key :: "js_string option"
  authorization :: "js_string option"

text \<open>
  \<^verbatim>\<open>req.headers['x-api-key'] || req.headers['authorization']?.replace('Bearer ', '')\<close>
\<close>

definition presented_key :: "headers \<Rightarrow> js_string option" where
  "presented_key hs =
     js_or (x_api_key hs)
           (map_option (\<lambda>a. js_replace a (lit ''Bearer '') []) (authorization hs))"

datatype auth_result = Next | Reply response

text \<open>
  \<open>apiKeyAuth\<close>; the first argument is \<^verbatim>\<open>process.env.API_SECRET_KEY\<close>. The
  \<^verbatim>\<open>catch\<close> branch (500, \<^verbatim>\<open>AUTH_ERROR\<close>) is not reached by any header value that is
  a string or absent, and logging is left out.
\<close>

definition apiKeyAuth :: "js_string option \<Rightarrow> headers \<Rightarrow> auth_result" where
  "apiKeyAuth API_SECRET_KEY hs =
     (let apiKey = presented_key hs in
      if \<not> truthy apiKey then Reply (failure 401 ''API key required'' ''MISSING_API_KEY'')
      else
        let expectedApiKey = API_SECRET_KEY in
        if \<not> truthy expectedApiKey
          then Reply (failure 500 ''Server configuration error'' ''CONFIG_ERROR'')
        else if apiKey \<noteq> expectedApiKey
          then Reply (failure 401 ''Invalid API key'' ''INVALID_API_KEY'')
        else Next)"

section \<open>The note store (services/supabaseService.js)\<close>

text \<open>
  A row of the \<^verbatim>\<open>notes\<close> table, keyed by its id in the store. The timestamps
  \<^verbatim>\<open>created_at\<close> and \<^verbatim>\<open>updated_at\<close> are wall-clock readings and are left out.
  \<^verbatim>\<open>processing_time\<close> is the clock difference in milliseconds (the source divides it
  by 1000 and stores a floating-point number of seconds).
\<close>

record note_row =
  user_id :: js_string
  original_text :: js_string
  processed_text :: "js_string option"
  note_type :: js_string
  processing_status :: js_string
  tokens_used :: "nat option"
  processing_time :: "nat option"

text \<open>
  The second argument of \<open>updateNoteProcessing\<close>: a field that the caller does not
  pass is \<^verbatim>\<open>undefined\<close>, here \<open>None\<close>, and is not written.
\<close>

record update =
  upd_processedText :: "js_string option"
  upd_status :: "js_string option"
  upd_tokensUsed :: "nat option"
  upd_processingTime :: "nat option"

definition no_update :: update where
  "no_update = \<lparr>upd_processedText = None, upd_status = None,
                  upd_tokensUsed = None, upd_processingTime = None\<rparr>"

text \<open>
  The earlier processor passes the columns to write by their names in the table, the
  note type among them.
\<close>

record row_update =
  set_processed_text :: "js_string option"
  set_processing_status :: "js_string option"
  set_tokens_used :: "nat option"
  set_processing_time :: "nat option"
  set_note_type :: "js_string option"

text \<open>
  What a call does to the outside world is kept as a trace: requests sent to the
  completion service (malformed when the message content is not a string), note
  updates that the store persisted or refused, runs of the counter routine, and the
  logger's warn-level entries (message text only; entries of the other levels are not
  kept).
\<close>

datatype event =
    CompletionRequest js_string
  | MalformedCompletionRequest
  | NoteUpdated js_string update
  | NoteUpdateFailed js_string update
  | RowUpdated js_string row_update
  | RowUpdateFailed js_string row_update
  | NoteCountIncremented js_string
  | NoteCountIncrementFailed js_string
  | Warned js_string

record world =
  notes_table :: "js_string \<rightharpoonup> note_row"
  monthly_note_count :: "js_string \<Rightarrow> nat"
  trace :: "event list"

definition emit :: "event \<Rightarrow> world \<Rightarrow> world" where
  "emit ev w = w\<lparr>trace := trace w @ [ev]\<rparr>"

text \<open>
  An exception that leaves a service call: an error reported by the store, or the
  \<^verbatim>\<open>TypeError\<close> of calling something that is not a function.
\<close>

datatype exn = StoreError | TypeError

text \<open>The reply of the database routine \<^verbatim>\<open>check_user_limits\<close>.\<close>

record user_limits =
  limit_reached :: bool
  limits_monthly_note_count :: nat
  notes_remaining :: int
  subscription_tier :: js_string

text \<open>The part of a chat-completion response that the service reads.\<close>

record completion =
  content :: js_string
  total_tokens :: nat
  model :: "js_string option"

text \<open>
  The places of \<open>processNote\<close> that update the note, and what the collaborators
  answer during one call. The store client and the completion client are external:
  whether a query reports an error, what \<^verbatim>\<open>check_user_limits\<close> replies, what the
  completion service returns (\<open>Inl\<close>: the client throws; a response that lacks
  \<^verbatim>\<open>choices[0].message.content\<close> or \<^verbatim>\<open>usage\<close> throws as well) and the measured
  processing time are parameters of the call.
\<close>

datatype update_site = LimitWrite | ProcessingWrite | TerminalWrite | RecoveryWrite

record env =
  fetch_error :: bool
  limits :: "user_limits option"
  update_error :: "update_site \<Rightarrow> bool"
  completion_reply :: "js_string + completion"
  increment_error :: bool
  clock :: nat

definition apply_update :: "update \<Rightarrow> note_row \<Rightarrow> note_row" where
  "apply_update u n =
     n\<lparr>processed_text := (case upd_processedText u of None \<Rightarrow> processed_text n | Some t \<Rightarrow> Some t),
       processing_status := (case upd_status u of None \<Rightarrow> processing_status n | Some s \<Rightarrow> s),
       tokens_used := (case upd_tokensUsed u of None \<Rightarrow> tokens_used n | Some k \<Rightarrow> Some k),
       processing_time := (case upd_processingTime u of None \<Rightarrow> processing_time n | Some t \<Rightarrow> Some t)\<rparr>"

text \<open>
  \<open>updateNoteProcessing\<close>: the query \<^verbatim>\<open>update(...).eq('id', noteId).select().single()\<close>
  reports an error when the store fails (first argument) or when no row has the id;
  the error is thrown on to the caller.
\<close>

definition updateNoteProcessing ::
    "bool \<Rightarrow> js_string \<Rightarrow> update \<Rightarrow> world \<Rightarrow> (exn + note_row) \<times> world" where
  "updateNoteProcessing store_fails noteId u w =
     (case notes_table w noteId of
        None \<Rightarrow> (Inl StoreError, emit (NoteUpdateFailed noteId u) w)
      | Some n \<Rightarrow>
          if store_fails then (Inl StoreError, emit (NoteUpdateFailed noteId u) w)
          else (Inr (apply_update u n),
                emit (NoteUpdated noteId u) (w\<lparr>notes_table := (notes_table w)(noteId \<mapsto> apply_update u n)\<rparr>)))"

text \<open>
  \<open>getNoteById\<close>: the error code \<^verbatim>\<open>PGRST116\<close> (no row) yields \<^verbatim>\<open>null\<close> and a
  warning; any other error is thrown.
\<close>

definition getNoteById :: "bool \<Rightarrow> js_string \<Rightarrow> world \<Rightarrow> (exn + note_row option) \<times> world" where
  "getNoteById store_fails noteId w =
     (if store_fails then (Inl StoreError, w)
      else case notes_table w noteId of
             None \<Rightarrow> (Inr None, emit (Warned (lit ''Note not found'')) w)
           | Some n \<Rightarrow> (Inr (Some n), w))"

text \<open>
  Modelled from the spec: the database routine \<^verbatim>\<open>increment_note_count\<close>, which
  \<open>incrementUserNoteCount\<close> calls, is not part of the repository; the spec describes it
  as an atomic increment of the user's monthly processed-note counter, so a run that
  reports no error adds one to \<open>monthly_note_count\<close> of that user. An error of the
  routine is thrown on to the caller.
\<close>

definition incrementUserNoteCount :: "bool \<Rightarrow> js_string \<Rightarrow> world \<Rightarrow> (exn + unit) \<times> world" where
  "incrementUserNoteCount store_fails userId w =
     (if store_fails then (Inl StoreError, emit (NoteCountIncrementFailed userId) w)
      else (Inr (),
            emit (NoteCountIncremented userId)
              (w\<lparr>monthly_note_count := (monthly_note_count w)(userId := monthly_note_count w userId + 1)\<rparr>)))"

text \<open>
  \<open>checkUserLimits\<close> returns what the routine \<^verbatim>\<open>check_user_limits\<close> replies, or
  throws its error (\<open>None\<close>).
\<close>

definition checkUserLimits :: "user_limits option \<Rightarrow> js_string \<Rightarrow> exn + user_limits" where
  "checkUserLimits reply userId = (case reply of None \<Rightarrow> Inl StoreError | Some l \<Rightarrow> Inr l)"

section \<open>The completion service (services/openaiService.js)\<close>

fun join_lines :: "string list \<Rightarrow> string" where
  "join_lines [] = []"
| "join_lines [l] = l"
| "join_lines (l # ls) = l @ [CHR 0x0A] @ join_lines ls"

definition template_lines :: "string list \<Rightarrow> js_string" where
  "template_lines ls = lit (join_lines ls)"

definition meeting_prompt :: js_string where
  \<open>meeting_prompt = template_lines
    [''Transform this speech transcript into professional meeting notes:'',
     '''',
     ''Input: "{text}"'',
     '''',
     ''Please create:'',
     ''1. **Key Discussion Points** - Main topics covered'',
     ''2. **Decisions Made** - Clear decisions and conclusions'',
     ''3. **Action Items** - Specific tasks with context'',
     ''4. **Next Steps** - Follow-up actions needed'',
     '''',
     ''Format with clear headings, bullet points, and professional language.'']\<close>

definition todo_prompt :: js_string where
  \<open>todo_prompt = template_lines
    [''Convert this speech into actionable tasks:'',
     '''',
     ''Input: "{text}"'',
     '''',
     ''Please create:'',
     ''1. **Priority Tasks** - Most important items first'',
     ''2. **Quick Tasks** - Items that can be done quickly  '',
     ''3. **Long-term Tasks** - Items requiring more time'',
     ''4. **Context** - Additional details for each task'',
     '''',
     ''Format as an organized, prioritized task list.'']\<close>

definition idea_prompt :: js_string where
  \<open>idea_prompt = template_lines
    [''Enhance and structure this creative idea:'',
     '''',
     ''Input: "{text}"'',
     '''',
     ''Please organize into:'',
     ''1. **Core Concept** - Main idea clearly stated'',
     ''2. **Key Features** - Important aspects or components'',
     ''3. **Potential Benefits** - Value and advantages'',
     ''4. **Next Steps** - How to develop this idea further'',
     '''',
     ''Format as a structured idea document with clear sections.'']\<close>

definition general_prompt :: js_string where
  \<open>general_prompt = template_lines
    [''Improve and format this note:'',
     '''',
     ''Input: "{text}"'',
     '''',
     ''Please:'',
     ''1. **Fix grammar and clarity** - Make it readable'',
     ''2. **Organize logically** - Structure the content'',
     ''3. **Add proper formatting** - Use headings and bullets'',
     ''4. **Enhance professional tone** - Make it polished'',
     '''',
     ''Format as a well-structured, professional note.'']\<close>

text \<open>
  \<^verbatim>\<open>this.prompts[noteType]\<close>. \<^verbatim>\<open>this.prompts\<close> is an object literal, so besides its
  four own properties a lookup finds the members it inherits from
  \<^verbatim>\<open>Object.prototype\<close>; those are functions (an object for \<^verbatim>\<open>__proto__\<close>): truthy,
  and without a \<^verbatim>\<open>replace\<close> method.
\<close>

datatype property = Own js_string | Inherited | Undefined

definition object_prototype_names :: "js_string list" where
  "object_prototype_names = map lit
     [''constructor'', ''__proto__'', ''hasOwnProperty'', ''isPrototypeOf'',
      ''propertyIsEnumerable'', ''toLocaleString'', ''toString'', ''valueOf'',
      ''__defineGetter__'', ''__defineSetter__'', ''__lookupGetter__'', ''__lookupSetter__'']"

definition prompts :: "js_string \<Rightarrow> property" where
  "prompts noteType =
     (if noteType = lit ''meeting'' then Own meeting_prompt
      else if noteType = lit ''todo'' then Own todo_prompt
      else if noteType = lit ''idea'' then Own idea_prompt
      else if noteType = lit ''general'' then Own general_prompt
      else if noteType \<in> set object_prototype_names then Inherited
      else Undefined)"

text \<open>
  The result object of \<open>OpenAIService.processNote\<close>, without its \<^verbatim>\<open>error\<close> field (the
  message of the caught exception, which the controller does not read).
\<close>

record openai_result =
  res_processedText :: js_string
  res_tokensUsed :: nat
  res_processingTime :: nat
  res_success :: bool
  res_model :: "js_string option"
  res_noteType :: js_string

text \<open>
  \<^verbatim>\<open>cleanText.replace(/[.!?]/g, '\n* ')\<close>, where the source has the bullet U+2022 in
  place of the asterisk.
\<close>

definition bullet_break :: js_string where
  "bullet_break = [0xA, 0x2022, 0x20]"

definition replace_sentence_ends :: "js_string \<Rightarrow> js_string" where
  "replace_sentence_ends s =
     concat (map (\<lambda>c. if c \<in> {0x2E, 0x21, 0x3F} then bullet_break else [c]) s)"

definition unavailable_note :: js_string where
  "unavailable_note = lit ''\<newline>\<newline>**Note:** Enhanced formatting temporarily unavailable.''"

definition createFallbackText :: "js_string \<Rightarrow> js_string \<Rightarrow> js_string" where
  "createFallbackText originalText noteType =
     (let cleanText = js_trim originalText in
      if noteType = lit ''meeting''
        then lit ''# Meeting Notes\<newline>\<newline>**Discussion:**\<newline>'' @ cleanText @ unavailable_note
      else if noteType = lit ''todo''
        then lit ''# Task List\<newline>\<newline>'' @ [0x2022, 0x20] @ replace_sentence_ends cleanText
               @ unavailable_note
      else if noteType = lit ''idea''
        then lit ''# Creative Idea\<newline>\<newline>**Concept:**\<newline>'' @ cleanText @ unavailable_note
      else lit ''# Note\<newline>\<newline>'' @ cleanText @ unavailable_note)"

text \<open>The object returned from the \<^verbatim>\<open>catch\<close> block of \<open>OpenAIService.processNote\<close>.\<close>

definition fallback_result :: "nat \<Rightarrow> js_string \<Rightarrow> js_string \<Rightarrow> openai_result" where
  "fallback_result elapsed originalText noteType =
     \<lparr>res_processedText = createFallbackText originalText noteType,
      res_tokensUsed = 0, res_processingTime = elapsed, res_success = False,
      res_model = None, res_noteType = noteType\<rparr>"

text \<open>
  \<open>OpenAIService.processNote\<close>. Everything thrown inside its \<^verbatim>\<open>try\<close> block ends in
  the fallback result: the error for a blank text, the \<^verbatim>\<open>TypeError\<close> of calling
  \<^verbatim>\<open>replace\<close> on an inherited member, and a failure of the completion request.
\<close>

definition openai_processNote ::
    "env \<Rightarrow> js_string \<Rightarrow> js_string \<Rightarrow> world \<Rightarrow> openai_result \<times> world" where
  "openai_processNote e originalText noteType0 w =
     (if originalText = [] \<or> js_trim originalText = []
        then (fallback_result (clock e) originalText noteType0, w)
      else
        let (noteType, w1) =
              (if prompts noteType0 = Undefined
               then (lit ''general'',
                     emit (Warned (lit ''Unknown note type: '' @ noteType0
                                     @ lit '', using general instead'')) w)
               else (noteType0, w)) in
        case prompts noteType of
          Own template \<Rightarrow>
            let prompt = js_replace template (lit ''{text}'') (js_trim originalText);
                w2 = emit (CompletionRequest prompt) w1 in
            (case completion_reply e of
               Inl failure_message \<Rightarrow> (fallback_result (clock e) originalText noteType, w2)
             | Inr response \<Rightarrow>
                 (\<lparr>res_processedText = js_trim (content response),
                   res_tokensUsed = total_tokens response,
                   res_processingTime = clock e, res_success = True,
                   res_model = model response, res_noteType = noteType\<rparr>, w2))
        | _ \<Rightarrow> (fallback_result (clock e) originalText noteType, w1))"

section \<open>The processing controller (controllers/processingController.js)\<close>

text \<open>
  The request body of \<^verbatim>\<open>POST /api/process\<close>: \<^verbatim>\<open>req.body.noteId\<close>, a string or
  absent.
\<close>

record request =
  body_noteId :: "js_string option"

definition plain :: "nat \<Rightarrow> string \<Rightarrow> response" where
  "plain code msg =
     \<lparr>status = code, success = False, message = Some (lit msg), error = None, data = None\<rparr>"

definition limit_suffix :: js_string where
  "limit_suffix =
     lit ''\<newline>\<newline>**Note: Monthly processing limit reached. Please upgrade to premium.**''"

definition already_processed :: "js_string \<Rightarrow> note_row \<Rightarrow> response" where
  "already_processed noteId n =
     \<lparr>status = 200, success = True, message = Some (lit ''Note already processed''),
      error = None,
      data = Some (AlreadyProcessed noteId (processed_text n) (tokens_used n) (processing_time n))\<rparr>"

definition limit_reached_response :: "user_limits \<Rightarrow> response" where
  "limit_reached_response userLimits =
     \<lparr>status = 429, success = False, message = Some (lit ''Monthly processing limit reached''),
      error = Some (lit ''LIMIT_REACHED''),
      data = Some (LimitInfo (limits_monthly_note_count userLimits) (notes_remaining userLimits)
                             (subscription_tier userLimits))\<rparr>"

definition terminal_status :: "openai_result \<Rightarrow> js_string" where
  "terminal_status result = (if res_success result then lit ''completed'' else lit ''failed'')"

definition processed_response :: "js_string \<Rightarrow> note_row \<Rightarrow> openai_result \<Rightarrow> response" where
  "processed_response noteId n result =
     \<lparr>status = 200, success = True,
      message = Some (if res_success result then lit ''Note processed successfully''
                      else lit ''Note processing completed with fallback''),
      error = None,
      data = Some (Processed noteId (original_text n) (res_processedText result) (note_type n)
                     (terminal_status result) (res_tokensUsed result) (res_processingTime result)
                     (res_success result)
                     (case js_or (res_model result) (Some (lit ''fallback'')) of
                        Some m \<Rightarrow> m | None \<Rightarrow> lit ''fallback''))\<rparr>"

text \<open>
  The body of the \<^verbatim>\<open>try\<close> block of \<open>processNote\<close>: \<open>Inr\<close> is the response it sends,
  \<open>Inl\<close> an exception that leaves the block.
\<close>

definition processNote_try :: "env \<Rightarrow> request \<Rightarrow> world \<Rightarrow> (exn + response) \<times> world" where
  "processNote_try e req w =
     (if \<not> truthy (body_noteId req)
        then (Inr (failure 400 ''Note ID is required'' ''MISSING_NOTE_ID''), w)
      else
        let noteId = (case body_noteId req of Some i \<Rightarrow> i | None \<Rightarrow> []) in
        case getNoteById (fetch_error e) noteId w of
          (Inl x, w1) \<Rightarrow> (Inl x, w1)
        | (Inr None, w1) \<Rightarrow>
            (Inr (failure 404 ''Note not found'' ''NOTE_NOT_FOUND''),
             emit (Warned (lit ''Note not found for processing'')) w1)
        | (Inr (Some n), w1) \<Rightarrow>
            if processing_status n = lit ''completed''
              then (Inr (already_processed noteId n), w1)
            else
              (case checkUserLimits (limits e) (user_id n) of
                 Inl x \<Rightarrow> (Inl x, w1)
               | Inr userLimits \<Rightarrow>
                   if limit_reached userLimits then
                     (case updateNoteProcessing (update_error e LimitWrite) noteId
                             (no_update\<lparr>upd_status := Some (lit ''failed''),
                                        upd_processedText := Some (original_text n @ limit_suffix)\<rparr>)
                             (emit (Warned (lit ''User processing limit reached'')) w1) of
                        (Inl x, w2) \<Rightarrow> (Inl x, w2)
                      | (Inr _, w2) \<Rightarrow> (Inr (limit_reached_response userLimits), w2))
                   else
                     (case updateNoteProcessing (update_error e ProcessingWrite) noteId
                             (no_update\<lparr>upd_status := Some (lit ''processing'')\<rparr>) w1 of
                        (Inl x, w2) \<Rightarrow> (Inl x, w2)
                      | (Inr _, w2) \<Rightarrow>
                          (case openai_processNote e (original_text n) (note_type n) w2 of
                             (result, w3) \<Rightarrow>
                               (case updateNoteProcessing (update_error e TerminalWrite) noteId
                                       \<lparr>upd_processedText = Some (res_processedText result),
                                        upd_status = Some (terminal_status result),
                                        upd_tokensUsed = Some (res_tokensUsed result),
                                        upd_processingTime = Some (res_processingTime result)\<rparr> w3 of
                                  (Inl x, w4) \<Rightarrow> (Inl x, w4)
                                | (Inr updatedNote, w4) \<Rightarrow>
                                    (case (if res_success result
                                           then incrementUserNoteCount (increment_error e) (user_id n) w4
                                           else (Inr (), w4)) of
                                       (Inl x, w5) \<Rightarrow> (Inl x, w5)
                                     | (Inr _, w5) \<Rightarrow>
                                         (Inr (processed_response noteId n result), w5)))))))"

text \<open>
  The \<^verbatim>\<open>catch\<close> block: a best-effort write of status \<^verbatim>\<open>failed\<close>, whose own failure is
  only logged, then the 500 response.
\<close>

definition processNote_catch :: "env \<Rightarrow> request \<Rightarrow> world \<Rightarrow> response \<times> world" where
  "processNote_catch e req w =
     (failure 500 ''Processing failed'' ''PROCESSING_ERROR'',
      (case body_noteId req of
         None \<Rightarrow> w
       | Some noteId \<Rightarrow>
           if noteId = [] then w
           else snd (updateNoteProcessing (update_error e RecoveryWrite) noteId
                       (no_update\<lparr>upd_status := Some (lit ''failed'')\<rparr>) w)))"

definition processNote :: "env \<Rightarrow> request \<Rightarrow> world \<Rightarrow> response \<times> world" where
  "processNote e req w =
     (case processNote_try e req w of
        (Inr res, w1) \<Rightarrow> (res, w1)
      | (Inl x, w1) \<Rightarrow> processNote_catch e req w1)"

text \<open>
  \<open>getProcessingStatus\<close> (\<^verbatim>\<open>GET /api/status/:noteId\<close>); the first argument says
  whether its lookup fails in the store.
\<close>

definition getProcessingStatus :: "bool \<Rightarrow> js_string option \<Rightarrow> world \<Rightarrow> response \<times> world" where
  "getProcessingStatus store_fails param w =
     (if \<not> truthy param then (plain 400 ''Note ID is required'', w)
      else
        let noteId = (case param of Some i \<Rightarrow> i | None \<Rightarrow> []) in
        case getNoteById store_fails noteId w of
          (Inl x, w1) \<Rightarrow> (failure 500 ''Failed to get processing status'' ''STATUS_ERROR'', w1)
        | (Inr None, w1) \<Rightarrow> (plain 404 ''Note not found'', w1)
        | (Inr (Some n), w1) \<Rightarrow>
            (\<lparr>status = 200, success = True, message = None, error = None,
              data = Some (StatusInfo noteId (processing_status n) (tokens_used n)
                             (processing_time n) (truthy (processed_text n)))\<rparr>, w1))"

text \<open>What the trace says about one call: the events it appended.\<close>

definition completion_requests :: "event list \<Rightarrow> nat" where
  "completion_requests evs =
     length (filter (\<lambda>ev. case ev of CompletionRequest _ \<Rightarrow> True | _ \<Rightarrow> False) evs)"

definition persisted_updates :: "event list \<Rightarrow> (js_string \<times> update) list" where
  "persisted_updates evs = concat (map (\<lambda>ev. case ev of NoteUpdated i u \<Rightarrow> [(i, u)] | _ \<Rightarrow> []) evs)"

definition increments :: "event list \<Rightarrow> js_string list" where
  "increments evs = concat (map (\<lambda>ev. case ev of NoteCountIncremented u \<Rightarrow> [u] | _ \<Rightarrow> []) evs)"

definition new_events :: "world \<Rightarrow> world \<Rightarrow> event list" where
  "new_events w w' = drop (length (trace w)) (trace w')"

section \<open>The earlier processor (speechcraft-processor)\<close>

text \<open>
  The repository holds a second, earlier server under \<^verbatim>\<open>speechcraft-processor/\<close>, with
  its own \<open>ProcessingController.processNote\<close>, store service and completion service.
  Its definitions carry the prefix \<open>processor_\<close>. Both of its services fall back to a
  test mode when their credentials are not configured.
\<close>

record processor_config =
  store_testMode :: bool
  openai_testMode :: bool

record processor_request =
  pbody_noteId :: "js_string option"
  pbody_noteType :: "js_string option"

text \<open>
  \<open>processNoteSchema\<close>: \<^verbatim>\<open>noteId: Joi.string().uuid().required()\<close> and
  \<^verbatim>\<open>noteType: Joi.string().valid('meeting', 'todo', 'idea', 'general').default('general')\<close>.
  Joi reports the first key that fails, in schema order; the test for the UUID syntax
  is Joi's own and is a parameter.
\<close>

datatype validation_error = NoteIdInvalid | NoteTypeInvalid

definition note_types :: "js_string list" where
  "note_types = map lit [''meeting'', ''todo'', ''idea'', ''general'']"

definition processNoteSchema_validate ::
    "(js_string \<Rightarrow> bool) \<Rightarrow> processor_request \<Rightarrow> validation_error + js_string \<times> js_string" where
  "processNoteSchema_validate is_uuid req =
     (case pbody_noteId req of
        None \<Rightarrow> Inl NoteIdInvalid
      | Some noteId \<Rightarrow>
          if noteId = [] \<or> \<not> is_uuid noteId then Inl NoteIdInvalid
          else (case pbody_noteType req of
                  None \<Rightarrow> Inr (noteId, lit ''general'')
                | Some noteType \<Rightarrow>
                    if noteType \<in> set note_types then Inr (noteId, noteType)
                    else Inl NoteTypeInvalid))"

text \<open>
  The response bodies: \<^verbatim>\<open>{ error, message }\<close>, where the message of a validation
  failure is the text Joi produces, and
  \<^verbatim>\<open>{ success: true, note, processing: { tokensUsed, processingTime, error } }\<close>.
  In test mode the store returns a made-up object (\<^verbatim>\<open>{ id: noteId, ...updates }\<close>)
  in place of a row.
\<close>

datatype processor_message = Text js_string | JoiDetail validation_error

datatype returned_row = Row note_row | Fabricated js_string row_update

datatype processor_body =
    ErrorBody js_string processor_message
  | SuccessBody returned_row nat nat "js_string option"

record processor_response =
  pres_status :: nat
  pres_body :: processor_body

definition apply_row_update :: "row_update \<Rightarrow> note_row \<Rightarrow> note_row" where
  "apply_row_update u n =
     n\<lparr>processed_text := (case set_processed_text u of None \<Rightarrow> processed_text n | Some t \<Rightarrow> Some t),
       processing_status := (case set_processing_status u of None \<Rightarrow> processing_status n | Some s \<Rightarrow> s),
       tokens_used := (case set_tokens_used u of None \<Rightarrow> tokens_used n | Some k \<Rightarrow> Some k),
       processing_time := (case set_processing_time u of None \<Rightarrow> processing_time n | Some t \<Rightarrow> Some t),
       note_type := (case set_note_type u of None \<Rightarrow> note_type n | Some t \<Rightarrow> t)\<rparr>"

definition processor_updateNoteProcessing ::
    "processor_config \<Rightarrow> bool \<Rightarrow> js_string \<Rightarrow> row_update \<Rightarrow> world
       \<Rightarrow> (exn + returned_row) \<times> world" where
  "processor_updateNoteProcessing cfg store_fails noteId updates w =
     (if store_testMode cfg then (Inr (Fabricated noteId updates), w)
      else case notes_table w noteId of
             None \<Rightarrow> (Inl StoreError, emit (RowUpdateFailed noteId updates) w)
           | Some n \<Rightarrow>
               if store_fails then (Inl StoreError, emit (RowUpdateFailed noteId updates) w)
               else (Inr (Row (apply_row_update updates n)),
                     emit (RowUpdated noteId updates)
                       (w\<lparr>notes_table := (notes_table w)(noteId \<mapsto> apply_row_update updates n)\<rparr>)))"

definition test_note :: note_row where
  "test_note =
     \<lparr>user_id = lit ''test-user-id'',
      original_text = lit ''This is a test voice note about productivity and meeting notes.'',
      processed_text = None, note_type = lit ''general'',
      processing_status = lit ''pending'', tokens_used = None, processing_time = None\<rparr>"

text \<open>
  \<open>getNoteById\<close> of this service throws every error of the query, the one for a
  missing row included, so it returns a row or throws.
\<close>

definition processor_getNoteById ::
    "processor_config \<Rightarrow> bool \<Rightarrow> js_string \<Rightarrow> world \<Rightarrow> exn + note_row" where
  "processor_getNoteById cfg store_fails noteId w =
     (if store_testMode cfg then Inr test_note
      else if store_fails then Inl StoreError
      else case notes_table w noteId of None \<Rightarrow> Inl StoreError | Some n \<Rightarrow> Inr n)"

text \<open>
  \<open>incrementUserNoteCount\<close> of this service builds its update of the column
  \<^verbatim>\<open>notes_processed\<close> with the tagged template \<^verbatim>\<open>this.supabase.sql\<close>. The client
  that \<^verbatim>\<open>createClient\<close> returns has no member \<^verbatim>\<open>sql\<close>, so outside test mode the call
  throws a \<^verbatim>\<open>TypeError\<close> before any query is sent; the service logs it and throws it
  on, and the counter stays as it was. In test mode nothing is sent at all.
\<close>

definition processor_incrementUserNoteCount ::
    "processor_config \<Rightarrow> js_string \<Rightarrow> world \<Rightarrow> (exn + unit) \<times> world" where
  "processor_incrementUserNoteCount cfg userId w =
     (if store_testMode cfg then (Inr (), w)
      else (Inl TypeError, emit (NoteCountIncrementFailed userId) w))"

record processor_result =
  pr_processedText :: js_string
  pr_tokensUsed :: nat
  pr_processingTime :: nat
  pr_error :: "js_string option"

definition processor_prompts :: "js_string \<Rightarrow> js_string \<Rightarrow> property" where
  "processor_prompts originalText noteType =
     (if noteType = lit ''meeting'' then Own (lit (''Please clean up and structure this meeting transcript. Format it with clear sections for key points, action items, and decisions made. Keep the original meaning but make it professional and well-organized:'' @ ''\<newline>\<newline>'') @ originalText)
      else if noteType = lit ''todo'' then Own (lit (''Please convert this voice note into a clear, actionable todo list. Break down tasks into specific steps if needed, and organize by priority if mentioned:'' @ ''\<newline>\<newline>'') @ originalText)
      else if noteType = lit ''idea'' then Own (lit (''Please expand and refine this idea. Add structure, potential next steps, and flesh out the concept while maintaining the original creative intent:'' @ ''\<newline>\<newline>'') @ originalText)
      else if noteType = lit ''general'' then Own (lit (''Please clean up and improve this voice note. Fix any grammar, make it more readable, and organize the content logically while preserving all the original information:'' @ ''\<newline>\<newline>'') @ originalText)
      else if noteType \<in> set object_prototype_names then Inherited
      else Undefined)"

text \<open>
  \<open>OpenAIService.processNote\<close> of this service. In test mode it makes up a result:
  a token estimate of a quarter of the text's length, and half a second of
  processing time. Otherwise \<^verbatim>\<open>prompts[noteType] || prompts.general\<close> is sent; an empty
  or missing \<^verbatim>\<open>content\<close> is replaced by the original text.
\<close>

definition processor_openai_processNote ::
    "processor_config \<Rightarrow> env \<Rightarrow> js_string \<Rightarrow> js_string \<Rightarrow> world \<Rightarrow> processor_result \<times> world" where
  "processor_openai_processNote cfg e originalText noteType w =
     (if openai_testMode cfg then
        (\<lparr>pr_processedText =
            lit ''[TEST MODE - AI PROCESSED]\<newline>\<newline>**Enhanced '' @ noteType @ lit '' note:**\<newline>\<newline>''
              @ originalText
              @ lit ''\<newline>\<newline>**Key Points:**\<newline>- This is a simulated AI enhancement\<newline>- Original text preserved\<newline>- Note type: ''
              @ noteType @ lit ''\<newline>- This would normally be processed by OpenAI'',
          pr_tokensUsed = length originalText div 4,
          pr_processingTime = 500, pr_error = None\<rparr>, w)
      else
        let w1 = (case processor_prompts originalText noteType of
                    Own prompt \<Rightarrow> emit (CompletionRequest prompt) w
                  | Inherited \<Rightarrow> emit MalformedCompletionRequest w
                  | Undefined \<Rightarrow>
                      (case processor_prompts originalText (lit ''general'') of
                         Own prompt \<Rightarrow> emit (CompletionRequest prompt) w
                       | _ \<Rightarrow> w)) in
        case completion_reply e of
          Inl failure_message \<Rightarrow>
            (\<lparr>pr_processedText = originalText, pr_tokensUsed = 0, pr_processingTime = 0,
              pr_error = Some failure_message\<rparr>, w1)
        | Inr response \<Rightarrow>
            (\<lparr>pr_processedText = (if content response = [] then originalText else content response),
              pr_tokensUsed = total_tokens response,
              pr_processingTime = clock e, pr_error = None\<rparr>, w1))"

definition refusal :: "nat \<Rightarrow> string \<Rightarrow> string \<Rightarrow> processor_response" where
  "refusal code err msg = \<lparr>pres_status = code, pres_body = ErrorBody (lit err) (Text (lit msg))\<rparr>"

definition no_row_update :: row_update where
  "no_row_update = \<lparr>set_processed_text = None, set_processing_status = None,
                      set_tokens_used = None, set_processing_time = None, set_note_type = None\<rparr>"

text \<open>
  The \<^verbatim>\<open>try\<close> block of this controller's \<open>processNote\<close>. Its test \<^verbatim>\<open>if (!note)\<close> for
  a 404 response has no case here, since \<open>processor_getNoteById\<close> never returns
  \<^verbatim>\<open>null\<close>.
\<close>

definition processor_processNote_try ::
    "(js_string \<Rightarrow> bool) \<Rightarrow> processor_config \<Rightarrow> env \<Rightarrow> processor_request \<Rightarrow> world
       \<Rightarrow> (exn + processor_response) \<times> world" where
  "processor_processNote_try is_uuid cfg e req w =
     (case processNoteSchema_validate is_uuid req of
        Inl v \<Rightarrow>
          (Inr \<lparr>pres_status = 400, pres_body = ErrorBody (lit ''Validation error'') (JoiDetail v)\<rparr>, w)
      | Inr (noteId, noteType) \<Rightarrow>
          (case processor_getNoteById cfg (fetch_error e) noteId w of
             Inl x \<Rightarrow> (Inl x, w)
           | Inr n \<Rightarrow>
               if processing_status n = lit ''completed''
                 then (Inr (refusal 400 ''Already processed'' ''This note has already been processed''), w)
               else
                 (case processor_updateNoteProcessing cfg (update_error e ProcessingWrite) noteId
                         (no_row_update\<lparr>set_processing_status := Some (lit ''processing''),
                                         set_note_type := Some noteType\<rparr>) w of
                    (Inl x, w1) \<Rightarrow> (Inl x, w1)
                  | (Inr _, w1) \<Rightarrow>
                      (case processor_openai_processNote cfg e (original_text n) noteType w1 of
                         (result, w2) \<Rightarrow>
                           (case processor_updateNoteProcessing cfg (update_error e TerminalWrite) noteId
                                   \<lparr>set_processed_text = Some (pr_processedText result),
                                    set_processing_status =
                                      Some (if truthy (pr_error result) then lit ''failed''
                                            else lit ''completed''),
                                    set_tokens_used = Some (pr_tokensUsed result),
                                    set_processing_time = Some (pr_processingTime result),
                                    set_note_type = Some noteType\<rparr> w2 of
                              (Inl x, w3) \<Rightarrow> (Inl x, w3)
                            | (Inr updatedNote, w3) \<Rightarrow>
                                (case processor_incrementUserNoteCount cfg (user_id n) w3 of
                                   (Inl x, w4) \<Rightarrow> (Inl x, w4)
                                 | (Inr _, w4) \<Rightarrow>
                                     (Inr \<lparr>pres_status = 200,
                                           pres_body = SuccessBody updatedNote (pr_tokensUsed result)
                                             (pr_processingTime result)
                                             (js_or (pr_error result) None)\<rparr>, w4)))))))"

definition processor_processNote ::
    "(js_string \<Rightarrow> bool) \<Rightarrow> processor_config \<Rightarrow> env \<Rightarrow> processor_request \<Rightarrow> world
       \<Rightarrow> processor_response \<times> world" where
  "processor_processNote is_uuid cfg e req w =
     (case processor_processNote_try is_uuid cfg e req w of
        (Inr res, w1) \<Rightarrow> (res, w1)
      | (Inl x, w1) \<Rightarrow>
          (refusal 500 ''Processing failed'' ''An error occurred while processing the note'',
           (case pbody_noteId req of
              None \<Rightarrow> w1
            | Some noteId \<Rightarrow>
                if noteId = [] then w1
                else snd (processor_updateNoteProcessing cfg (update_error e RecoveryWrite) noteId
                            (no_row_update\<lparr>set_processing_status := Some (lit ''failed'')\<rparr>) w1))))"

section \<open>Vocabulary for the properties\<close>

text \<open>The update objects that \<open>processNote\<close> passes to the store, by place.\<close>

definition failed_update :: update where
  "failed_update = no_update\<lparr>upd_status := Some (lit ''failed'')\<rparr>"

definition processing_update :: update where
  "processing_update = no_update\<lparr>upd_status := Some (lit ''processing'')\<rparr>"

definition limit_update :: "note_row \<Rightarrow> update" where
  "limit_update n = no_update\<lparr>upd_status := Some (lit ''failed''),
                              upd_processedText := Some (original_text n @ limit_suffix)\<rparr>"

definition terminal_update :: "openai_result \<Rightarrow> update" where
  "terminal_update result =
     \<lparr>upd_processedText = Some (res_processedText result),
      upd_status = Some (terminal_status result),
      upd_tokensUsed = Some (res_tokensUsed result),
      upd_processingTime = Some (res_processingTime result)\<rparr>"

text \<open>The world after an update that the store persists, refuses, or that the
  \<^verbatim>\<open>catch\<close> block attempts.\<close>

definition persist :: "js_string \<Rightarrow> update \<Rightarrow> world \<Rightarrow> world" where
  "persist i u w = snd (updateNoteProcessing False i u w)"

definition refuse :: "js_string \<Rightarrow> update \<Rightarrow> world \<Rightarrow> world" where
  "refuse i u w = emit (NoteUpdateFailed i u) w"

definition recover :: "env \<Rightarrow> js_string \<Rightarrow> world \<Rightarrow> world" where
  "recover e i w = snd (updateNoteProcessing (update_error e RecoveryWrite) i failed_update w)"

text \<open>
  The completion service reads nothing from the world and only appends to the trace, so
  its result and the events it appends are functions of its arguments; they are read
  off a run in a world without notes.
\<close>

definition blank_world :: world where
  "blank_world = \<lparr>notes_table = Map.empty, monthly_note_count = (\<lambda>u. 0), trace = []\<rparr>"

definition openai_result_of :: "env \<Rightarrow> js_string \<Rightarrow> js_string \<Rightarrow> openai_result" where
  "openai_result_of e t ty = fst (openai_processNote e t ty blank_world)"

definition openai_events :: "env \<Rightarrow> js_string \<Rightarrow> js_string \<Rightarrow> event list" where
  "openai_events e t ty = trace (snd (openai_processNote e t ty blank_world))"

text \<open>What the update attempted by the \<^verbatim>\<open>catch\<close> block leaves of a note, and its event.\<close>

definition recovered :: "env \<Rightarrow> note_row \<Rightarrow> note_row" where
  "recovered e m = (if update_error e RecoveryWrite then m else apply_update failed_update m)"

definition recovery_event :: "env \<Rightarrow> js_string \<Rightarrow> event" where
  "recovery_event e i =
     (if update_error e RecoveryWrite then NoteUpdateFailed i failed_update
      else NoteUpdated i failed_update)"

text \<open>The statuses that the persisted updates of a trace wrote, in order.\<close>

definition status_writes :: "event list \<Rightarrow> js_string option list" where
  "status_writes evs = map (\<lambda>p. upd_status (snd p)) (persisted_updates evs)"

text \<open>How a call of \<open>processNote\<close> ended, read off its response.\<close>

definition processed_path :: "response \<Rightarrow> bool" where
  "processed_path res =
     (case data res of Some (Processed i t p ty st k ms ok m) \<Rightarrow> True | _ \<Rightarrow> False)"

definition openai_succeeded :: "response \<Rightarrow> bool" where
  "openai_succeeded res =
     (case data res of Some (Processed i t p ty st k ms ok m) \<Rightarrow> ok | _ \<Rightarrow> False)"

definition already_completed_path :: "response \<Rightarrow> bool" where
  "already_completed_path res =
     (case data res of Some (AlreadyProcessed i p k ms) \<Rightarrow> True | _ \<Rightarrow> False)"

definition limit_reached_path :: "response \<Rightarrow> bool" where
  "limit_reached_path res =
     (case data res of Some (LimitInfo c r t) \<Rightarrow> True | _ \<Rightarrow> False)"

text \<open>
  The edges of the state machine as the specification words it:
  pending to processing, and processing to completed or failed.
\<close>

definition spec_edge :: "js_string \<Rightarrow> js_string \<Rightarrow> bool" where
  "spec_edge old new \<longleftrightarrow>
     (old = lit ''pending'' \<and> new = lit ''processing'')
     \<or> (old = lit ''processing'' \<and> (new = lit ''completed'' \<or> new = lit ''failed''))"

section \<open>Example inputs\<close>

definition example_id :: js_string where
  "example_id = lit ''123e4567-e89b-12d3-a456-426614174000''"

text \<open>An instance of the UUID test: the canonical form of 36 characters with four dashes.\<close>

definition canonical_uuid :: "js_string \<Rightarrow> bool" where
  "canonical_uuid s \<longleftrightarrow>
     list_all2 (\<lambda>p c. if p = 0x2D then c = 0x2D else c \<in> set (lit ''0123456789abcdefABCDEF''))
       (lit ''xxxxxxxx-xxxx-xxxx-xxxx-xxxxxxxxxxxx'') s"

definition pending_todo :: note_row where
  "pending_todo =
     \<lparr>user_id = lit ''user-1'', original_text = lit ''buy milk. call mom.'',
      processed_text = None, note_type = lit ''todo'',
      processing_status = lit ''pending'', tokens_used = None, processing_time = None\<rparr>"

definition completed_note :: note_row where
  "completed_note =
     \<lparr>user_id = lit ''user-1'', original_text = lit ''buy milk. call mom.'',
      processed_text = Some (lit ''1. Buy milk 2. Call mom''), note_type = lit ''todo'',
      processing_status = lit ''completed'', tokens_used = Some 57, processing_time = Some 1200\<rparr>"

text \<open>A note that an earlier call left in status \<^verbatim>\<open>failed\<close>.\<close>

definition failed_note :: note_row where
  "failed_note = pending_todo\<lparr>processing_status := lit ''failed''\<rparr>"

definition store_with :: "note_row \<Rightarrow> world" where
  "store_with n = \<lparr>notes_table = [example_id \<mapsto> n], monthly_note_count = (\<lambda>u. 0), trace = []\<rparr>"

definition example_request :: request where
  "example_request = \<lparr>body_noteId = Some example_id\<rparr>"

definition within_limits :: user_limits where
  "within_limits = \<lparr>limit_reached = False, limits_monthly_note_count = 3,
                     notes_remaining = 7, subscription_tier = lit ''free''\<rparr>"

definition over_limit :: user_limits where
  "over_limit = \<lparr>limit_reached = True, limits_monthly_note_count = 10,
                  notes_remaining = 0, subscription_tier = lit ''free''\<rparr>"

definition example_reply :: completion where
  "example_reply = \<lparr>content = lit ''1. Buy milk 2. Call mom'', total_tokens = 57,
                     model = Some (lit ''gpt-3.5-turbo'')\<rparr>"

text \<open>Every collaborator answers; the completion service succeeds.\<close>

definition env_ok :: env where
  "env_ok = \<lparr>fetch_error = False, limits = Some within_limits, update_error = (\<lambda>site. False),
              completion_reply = Inr example_reply, increment_error = False, clock = 1200\<rparr>"

text \<open>The completion service is unavailable.\<close>

definition env_unavailable :: env where
  "env_unavailable = env_ok\<lparr>completion_reply := Inl (lit ''Service unavailable'')\<rparr>"

text \<open>The user is over the limit.\<close>

definition env_over_limit :: env where
  "env_over_limit = env_ok\<lparr>limits := Some over_limit\<rparr>"

text \<open>The user is over the limit and the store refuses the update of the note.\<close>

definition env_over_limit_write_fails :: env where
  "env_over_limit_write_fails = env_over_limit\<lparr>update_error := (\<lambda>site. site = LimitWrite)\<rparr>"

text \<open>The completion service succeeds, then the store refuses the final update.\<close>

definition env_terminal_write_fails :: env where
  "env_terminal_write_fails = env_ok\<lparr>update_error := (\<lambda>site. site = TerminalWrite)\<rparr>"

text \<open>The limit check fails and so does the update attempted by the \<^verbatim>\<open>catch\<close> block.\<close>

definition env_store_down :: env where
  "env_store_down = env_ok\<lparr>limits := None, update_error := (\<lambda>site. True)\<rparr>"

text \<open>The lookup of the note fails in the store.\<close>

definition env_fetch_fails :: env where
  "env_fetch_fails = env_ok\<lparr>fetch_error := True\<rparr>"

text \<open>The completion service succeeds, then the counter routine fails.\<close>

definition env_counter_fails :: env where
  "env_counter_fails = env_ok\<lparr>increment_error := True\<rparr>"

text \<open>Requests to the earlier processor, whose services are configured.\<close>

definition live_config :: processor_config where
  "live_config = \<lparr>store_testMode = False, openai_testMode = False\<rparr>"

definition processor_example_request :: processor_request where
  "processor_example_request = \<lparr>pbody_noteId = Some example_id, pbody_noteType = None\<rparr>"

definition processor_shopping_request :: processor_request where
  "processor_shopping_request =
     \<lparr>pbody_noteId = Some example_id, pbody_noteType = Some (lit ''shopping'')\<rparr>"

section \<open>Properties of the authentication middleware\<close>

lemma presented_key_absent:
  "x_api_key hs = None \<Longrightarrow> authorization hs = None \<Longrightarrow> presented_key hs = None"
  by (simp add: presented_key_def js_or_def truthy_def)

text \<open>
  Claim C7. A request that reaches \<open>apiKeyAuth\<close> without a secret (no \<^verbatim>\<open>x-api-key\<close> and no
  \<^verbatim>\<open>Authorization\<close> header, or only empty ones) is answered 401 with code
  \<^verbatim>\<open>MISSING_API_KEY\<close>; a request whose secret differs from the configured secret
  under exact string comparison is answered 401 with code \<^verbatim>\<open>INVALID_API_KEY\<close>; the
  two codes are different strings.
\<close>

theorem apiKeyAuth_missing_or_invalid:
  "(x_api_key hs = None \<and> authorization hs = None \<longrightarrow>
      apiKeyAuth secret hs = Reply (failure 401 ''API key required'' ''MISSING_API_KEY''))
   \<and> (\<not> truthy (presented_key hs) \<longrightarrow>
      apiKeyAuth secret hs = Reply (failure 401 ''API key required'' ''MISSING_API_KEY''))
   \<and> (truthy (presented_key hs) \<and> truthy secret \<and> presented_key hs \<noteq> secret \<longrightarrow>
      apiKeyAuth secret hs = Reply (failure 401 ''Invalid API key'' ''INVALID_API_KEY''))
   \<and> status (failure 401 ''API key required'' ''MISSING_API_KEY'') = 401
   \<and> status (failure 401 ''Invalid API key'' ''INVALID_API_KEY'') = 401
   \<and> error (failure 401 ''API key required'' ''MISSING_API_KEY'')
       \<noteq> error (failure 401 ''Invalid API key'' ''INVALID_API_KEY'')"
  by (auto simp: apiKeyAuth_def Let_def presented_key_absent truthy_def failure_def lit_def)

theorem apiKeyAuth_missing_or_invalid_witness:
  "apiKeyAuth (Some (lit ''s3cret'')) \<lparr>x_api_key = None, authorization = None\<rparr>
     = Reply (failure 401 ''API key required'' ''MISSING_API_KEY'')
   \<and> apiKeyAuth (Some (lit ''s3cret'')) \<lparr>x_api_key = Some [], authorization = Some (lit ''Bearer '')\<rparr>
     = Reply (failure 401 ''API key required'' ''MISSING_API_KEY'')
   \<and> apiKeyAuth (Some (lit ''s3cret'')) \<lparr>x_api_key = None, authorization = Some (lit ''Bearer guess'')\<rparr>
     = Reply (failure 401 ''Invalid API key'' ''INVALID_API_KEY'')"
  using apiKeyAuth_missing_or_invalid
          [of "\<lparr>x_api_key = None, authorization = None\<rparr>" "Some (lit ''s3cret'')"]
        apiKeyAuth_missing_or_invalid
          [of "\<lparr>x_api_key = Some [], authorization = Some (lit ''Bearer '')\<rparr>" "Some (lit ''s3cret'')"]
        apiKeyAuth_missing_or_invalid
          [of "\<lparr>x_api_key = None, authorization = Some (lit ''Bearer guess'')\<rparr>" "Some (lit ''s3cret'')"]
  by (simp add: presented_key_def js_or_def truthy_def js_replace_def lit_def)

text \<open>
  Claim C10. When \<^verbatim>\<open>API_SECRET_KEY\<close> is not configured (unset or empty), every request
  that supplies a key is answered 500 with code \<^verbatim>\<open>CONFIG_ERROR\<close>, and no request at
  all is passed on to the protected handler.
\<close>

theorem apiKeyAuth_unconfigured:
  "\<not> truthy secret \<Longrightarrow>
     (truthy (presented_key hs) \<longrightarrow>
        apiKeyAuth secret hs = Reply (failure 500 ''Server configuration error'' ''CONFIG_ERROR''))
     \<and> apiKeyAuth secret hs \<noteq> Next
     \<and> status (failure 500 ''Server configuration error'' ''CONFIG_ERROR'') = 500
     \<and> error (failure 500 ''Server configuration error'' ''CONFIG_ERROR'')
          = Some (lit ''CONFIG_ERROR'')"
  by (auto simp: apiKeyAuth_def Let_def failure_def)

theorem apiKeyAuth_unconfigured_witness:
  "\<not> truthy None
   \<and> truthy (presented_key \<lparr>x_api_key = Some (lit ''any-key''), authorization = None\<rparr>)
   \<and> apiKeyAuth None \<lparr>x_api_key = Some (lit ''any-key''), authorization = None\<rparr>
       = Reply (failure 500 ''Server configuration error'' ''CONFIG_ERROR'')
   \<and> apiKeyAuth None \<lparr>x_api_key = Some (lit ''any-key''), authorization = None\<rparr> \<noteq> Next"
  using apiKeyAuth_unconfigured
          [of None "\<lparr>x_api_key = Some (lit ''any-key''), authorization = None\<rparr>"]
  by (simp add: presented_key_def js_or_def truthy_def lit_def)

section \<open>The paths of processNote\<close>

lemma trace_emit [simp]: "trace (emit ev w) = trace w @ [ev]"
  and notes_emit [simp]: "notes_table (emit ev w) = notes_table w"
  and count_emit [simp]: "monthly_note_count (emit ev w) = monthly_note_count w"
  by (simp_all add: emit_def)

lemma lit_eq_iff [simp]: "lit a = lit b \<longleftrightarrow> a = b"
  unfolding lit_def by (simp add: inj_map_eq_map inj_on_def)

lemma update_fail: "updateNoteProcessing True i u w = (Inl StoreError, refuse i u w)"
  by (simp add: updateNoteProcessing_def refuse_def split: option.splits)

lemma update_ok:
  "notes_table w i = Some n \<Longrightarrow>
     updateNoteProcessing False i u w = (Inr (apply_update u n), persist i u w)"
  by (simp add: updateNoteProcessing_def persist_def)

lemma notes_persist:
  "notes_table w i = Some n \<Longrightarrow> notes_table (persist i u w) = (notes_table w)(i \<mapsto> apply_update u n)"
  by (simp add: updateNoteProcessing_def persist_def)

lemma notes_refuse [simp]: "notes_table (refuse i u w) = notes_table w"
  by (simp add: refuse_def)

lemma openai_notes:
  "openai_processNote e t ty w = (r, w') \<Longrightarrow> notes_table w' = notes_table w"
  by (auto simp: openai_processNote_def Let_def
           split: if_splits property.splits sum.splits prod.splits)

lemma processNote_worlds [consumes 1, case_names MissingId FetchFailed NotFound Completed
    LimitsFailed LimitWriteFailed LimitReached ProcessingWriteFailed TerminalWriteFailed
    Fallback IncrementFailed Success]:
  assumes run: "processNote e req w = (res, w')"
  obtains
    (MissingId) "\<not> truthy (body_noteId req)"
      "res = failure 400 ''Note ID is required'' ''MISSING_NOTE_ID''" "w' = w"
  | (FetchFailed) i where "body_noteId req = Some i" "i \<noteq> []" "fetch_error e"
      "res = failure 500 ''Processing failed'' ''PROCESSING_ERROR''" "w' = recover e i w"
  | (NotFound) i where "body_noteId req = Some i" "i \<noteq> []" "\<not> fetch_error e"
      "notes_table w i = None"
      "res = failure 404 ''Note not found'' ''NOTE_NOT_FOUND''"
      "w' = emit (Warned (lit ''Note not found for processing'')) (emit (Warned (lit ''Note not found'')) w)"
  | (Completed) i n where "body_noteId req = Some i" "i \<noteq> []" "\<not> fetch_error e"
      "notes_table w i = Some n" "processing_status n = lit ''completed''"
      "res = already_processed i n" "w' = w"
  | (LimitsFailed) i n where "body_noteId req = Some i" "i \<noteq> []" "\<not> fetch_error e"
      "notes_table w i = Some n" "processing_status n \<noteq> lit ''completed''"
      "limits e = None"
      "res = failure 500 ''Processing failed'' ''PROCESSING_ERROR''" "w' = recover e i w"
  | (LimitWriteFailed) i n l where "body_noteId req = Some i" "i \<noteq> []" "\<not> fetch_error e"
      "notes_table w i = Some n" "processing_status n \<noteq> lit ''completed''"
      "limits e = Some l" "limit_reached l" "update_error e LimitWrite"
      "res = failure 500 ''Processing failed'' ''PROCESSING_ERROR''"
      "w' = recover e i (refuse i (limit_update n) (emit (Warned (lit ''User processing limit reached'')) w))"
  | (LimitReached) i n l where "body_noteId req = Some i" "i \<noteq> []" "\<not> fetch_error e"
      "notes_table w i = Some n" "processing_status n \<noteq> lit ''completed''"
      "limits e = Some l" "limit_reached l" "\<not> update_error e LimitWrite"
      "res = limit_reached_response l"
      "w' = persist i (limit_update n) (emit (Warned (lit ''User processing limit reached'')) w)"
  | (ProcessingWriteFailed) i n l where "body_noteId req = Some i" "i \<noteq> []" "\<not> fetch_error e"
      "notes_table w i = Some n" "processing_status n \<noteq> lit ''completed''"
      "limits e = Some l" "\<not> limit_reached l" "update_error e ProcessingWrite"
      "res = failure 500 ''Processing failed'' ''PROCESSING_ERROR''"
      "w' = recover e i (refuse i processing_update w)"
  | (TerminalWriteFailed) i n l r w3 where "body_noteId req = Some i" "i \<noteq> []" "\<not> fetch_error e"
      "notes_table w i = Some n" "processing_status n \<noteq> lit ''completed''"
      "limits e = Some l" "\<not> limit_reached l" "\<not> update_error e ProcessingWrite"
      "openai_processNote e (original_text n) (note_type n) (persist i processing_update w) = (r, w3)"
      "update_error e TerminalWrite"
      "res = failure 500 ''Processing failed'' ''PROCESSING_ERROR''"
      "w' = recover e i (refuse i (terminal_update r) w3)"
  | (Fallback) i n l r w3 where "body_noteId req = Some i" "i \<noteq> []" "\<not> fetch_error e"
      "notes_table w i = Some n" "processing_status n \<noteq> lit ''completed''"
      "limits e = Some l" "\<not> limit_reached l" "\<not> update_error e ProcessingWrite"
      "openai_processNote e (original_text n) (note_type n) (persist i processing_update w) = (r, w3)"
      "\<not> update_error e TerminalWrite" "\<not> res_success r"
      "res = processed_response i n r"
      "w' = persist i (terminal_update r) w3"
  | (IncrementFailed) i n l r w3 where "body_noteId req = Some i" "i \<noteq> []" "\<not> fetch_error e"
      "notes_table w i = Some n" "processing_status n \<noteq> lit ''completed''"
      "limits e = Some l" "\<not> limit_reached l" "\<not> update_error e ProcessingWrite"
      "openai_processNote e (original_text n) (note_type n) (persist i processing_update w) = (r, w3)"
      "\<not> update_error e TerminalWrite" "res_success r" "increment_error e"
      "res = failure 500 ''Processing failed'' ''PROCESSING_ERROR''"
      "w' = recover e i (emit (NoteCountIncrementFailed (user_id n)) (persist i (terminal_update r) w3))"
  | (Success) i n l r w3 where "body_noteId req = Some i" "i \<noteq> []" "\<not> fetch_error e"
      "notes_table w i = Some n" "processing_status n \<noteq> lit ''completed''"
      "limits e = Some l" "\<not> limit_reached l" "\<not> update_error e ProcessingWrite"
      "openai_processNote e (original_text n) (note_type n) (persist i processing_update w) = (r, w3)"
      "\<not> update_error e TerminalWrite" "res_success r" "\<not> increment_error e"
      "res = processed_response i n r"
      "w' = snd (incrementUserNoteCount False (user_id n) (persist i (terminal_update r) w3))"
proof (cases "truthy (body_noteId req)")
  case False
  then have "processNote e req w = (failure 400 ''Note ID is required'' ''MISSING_NOTE_ID'', w)"
    by (simp add: processNote_def processNote_try_def)
  then show thesis by (intro MissingId) (use run False in auto)
next
  case True
  then obtain i where i: "body_noteId req = Some i" "i \<noteq> []"
    by (auto simp: truthy_def split: option.splits)
  note unfold = processNote_def processNote_try_def processNote_catch_def recover_def
    failed_update_def getNoteById_def checkUserLimits_def
  show thesis
  proof (cases "fetch_error e")
    case True
    with i \<open>truthy (body_noteId req)\<close>
    have "processNote e req w = (failure 500 ''Processing failed'' ''PROCESSING_ERROR'', recover e i w)"
      by (simp add: unfold)
    then show thesis by (intro FetchFailed) (use run i True in auto)
  next
    case fetch: False
    show thesis
    proof (cases "notes_table w i")
      case None
      with i fetch \<open>truthy (body_noteId req)\<close>
      have "processNote e req w = (failure 404 ''Note not found'' ''NOTE_NOT_FOUND'',
              emit (Warned (lit ''Note not found for processing'')) (emit (Warned (lit ''Note not found'')) w))"
        by (simp add: unfold)
      then show thesis by (intro NotFound) (use run i fetch None in auto)
    next
      case (Some n)
      note base = i fetch Some \<open>truthy (body_noteId req)\<close>
      show thesis
      proof (cases "processing_status n = lit ''completed''")
        case True
        with base have "processNote e req w = (already_processed i n, w)"
          by (simp add: unfold)
        then show thesis by (intro Completed) (use run base True in auto)
      next
        case fresh: False
        show thesis
        proof (cases "limits e")
          case None
          with base fresh
          have "processNote e req w = (failure 500 ''Processing failed'' ''PROCESSING_ERROR'', recover e i w)"
            by (simp add: unfold)
          then show thesis by (intro LimitsFailed) (use run base fresh None in auto)
        next
          case (Some l)
          note base = base fresh Some
          show thesis
          proof (cases "limit_reached l")
            case True
            show thesis
            proof (cases "update_error e LimitWrite")
              case wf: True
              with base True
              have "processNote e req w = (failure 500 ''Processing failed'' ''PROCESSING_ERROR'',
                      recover e i (refuse i (limit_update n) (emit (Warned (lit ''User processing limit reached'')) w)))"
                by (simp add: unfold update_fail limit_update_def)
              then show thesis by (intro LimitWriteFailed) (use run base True wf in auto)
            next
              case wf: False
              with base True
              have "processNote e req w = (limit_reached_response l,
                      persist i (limit_update n) (emit (Warned (lit ''User processing limit reached'')) w))"
                by (simp add: unfold update_ok limit_update_def)
              then show thesis by (intro LimitReached) (use run base True wf in auto)
            qed
          next
            case room: False
            show thesis
            proof (cases "update_error e ProcessingWrite")
              case True
              with base room
              have "processNote e req w = (failure 500 ''Processing failed'' ''PROCESSING_ERROR'',
                      recover e i (refuse i processing_update w))"
                by (simp add: unfold update_fail processing_update_def)
              then show thesis by (intro ProcessingWriteFailed) (use run base room True in auto)
            next
              case pw: False
              obtain r w3 where
                ai: "openai_processNote e (original_text n) (note_type n) (persist i processing_update w) = (r, w3)"
                by (cases "openai_processNote e (original_text n) (note_type n) (persist i processing_update w)")
              have n3: "notes_table w3 i = Some (apply_update processing_update n)"
                using openai_notes [OF ai] notes_persist [OF \<open>notes_table w i = Some n\<close>] by simp
              note base = base room pw
              show thesis
              proof (cases "update_error e TerminalWrite")
                case True
                with base ai
                have "processNote e req w = (failure 500 ''Processing failed'' ''PROCESSING_ERROR'',
                        recover e i (refuse i (terminal_update r) w3))"
                  by (simp add: unfold update_fail update_ok processing_update_def [symmetric]
                        terminal_update_def)
                then show thesis by (intro TerminalWriteFailed) (use run base ai True in auto)
              next
                case tw: False
                show thesis
                proof (cases "res_success r")
                  case False
                  with base ai tw n3
                  have "processNote e req w = (processed_response i n r, persist i (terminal_update r) w3)"
                    by (simp add: unfold update_ok processing_update_def [symmetric]
                          terminal_update_def)
                  then show thesis by (intro Fallback) (use run base ai tw False in auto)
                next
                  case ok: True
                  show thesis
                  proof (cases "increment_error e")
                    case True
                    with base ai tw n3 ok
                    have "processNote e req w = (failure 500 ''Processing failed'' ''PROCESSING_ERROR'',
                            recover e i (emit (NoteCountIncrementFailed (user_id n))
                              (persist i (terminal_update r) w3)))"
                      by (simp add: unfold update_ok processing_update_def [symmetric]
                            terminal_update_def incrementUserNoteCount_def)
                    then show thesis by (intro IncrementFailed) (use run base ai tw ok True in auto)
                  next
                    case False
                    with base ai tw n3 ok
                    have "processNote e req w = (processed_response i n r,
                            snd (incrementUserNoteCount False (user_id n) (persist i (terminal_update r) w3)))"
                      by (simp add: unfold update_ok processing_update_def [symmetric]
                            terminal_update_def incrementUserNoteCount_def)
                    then show thesis by (intro Success) (use run base ai tw ok False in auto)
                  qed
                qed
              qed
            qed
          qed
        qed
      qed
    qed
  qed
qed

lemma emit_eq: "emit ev w = w\<lparr>trace := trace w @ [ev]\<rparr>"
  by (simp add: emit_def)

lemma openai_processNote_eq:
  "openai_processNote e t ty w =
     (openai_result_of e t ty, w\<lparr>trace := trace w @ openai_events e t ty\<rparr>)"
  by (simp add: openai_processNote_def openai_result_of_def openai_events_def blank_world_def
        Let_def emit_eq split: property.splits sum.splits)

lemma trace_persist:
  "trace (persist i u w) =
     trace w @ [if notes_table w i = None then NoteUpdateFailed i u else NoteUpdated i u]"
  by (simp add: persist_def updateNoteProcessing_def split: option.splits)

lemma notes_persist_eq:
  "notes_table (persist i u w) =
     (case notes_table w i of None \<Rightarrow> notes_table w
      | Some n \<Rightarrow> (notes_table w)(i \<mapsto> apply_update u n))"
  by (simp add: persist_def updateNoteProcessing_def split: option.splits)

lemma count_persist [simp]: "monthly_note_count (persist i u w) = monthly_note_count w"
  by (simp add: persist_def updateNoteProcessing_def split: option.splits)

lemma trace_refuse [simp]: "trace (refuse i u w) = trace w @ [NoteUpdateFailed i u]"
  and count_refuse [simp]: "monthly_note_count (refuse i u w) = monthly_note_count w"
  by (simp_all add: refuse_def)

lemma recover_eq:
  "recover e i w = (if update_error e RecoveryWrite then refuse i failed_update w
                    else persist i failed_update w)"
  by (simp add: recover_def persist_def update_fail)

lemma trace_increment [simp]:
  "trace (snd (incrementUserNoteCount False u w)) = trace w @ [NoteCountIncremented u]"
  and notes_increment [simp]:
  "notes_table (snd (incrementUserNoteCount False u w)) = notes_table w"
  and count_increment [simp]:
  "monthly_note_count (snd (incrementUserNoteCount False u w))
     = (monthly_note_count w)(u := monthly_note_count w u + 1)"
  by (simp_all add: incrementUserNoteCount_def)

lemmas effect_simps = fun_upd_idem new_events_def trace_persist notes_persist_eq recover_eq recovered_def
  recovery_event_def openai_processNote_eq

lemma processNote_cases [consumes 1, case_names MissingId FetchFailed NotFound Completed
    LimitsFailed LimitWriteFailed LimitReached ProcessingWriteFailed TerminalWriteFailed
    Fallback IncrementFailed Success]:
  assumes run: "processNote e req w = (res, w')"
  obtains
    (MissingId) "\<not> truthy (body_noteId req)"
      "res = failure 400 ''Note ID is required'' ''MISSING_NOTE_ID''" "w' = w"
  | (FetchFailed) i where "body_noteId req = Some i" "i \<noteq> []" "fetch_error e"
      "res = failure 500 ''Processing failed'' ''PROCESSING_ERROR''"
      "new_events w w' = [if notes_table w i = None then NoteUpdateFailed i failed_update
                          else recovery_event e i]"
      "notes_table w' = (case notes_table w i of None \<Rightarrow> notes_table w
                         | Some m \<Rightarrow> (notes_table w)(i \<mapsto> recovered e m))"
      "monthly_note_count w' = monthly_note_count w"
  | (NotFound) i where "body_noteId req = Some i" "i \<noteq> []" "\<not> fetch_error e"
      "notes_table w i = None"
      "res = failure 404 ''Note not found'' ''NOTE_NOT_FOUND''"
      "new_events w w' = [Warned (lit ''Note not found''), Warned (lit ''Note not found for processing'')]"
      "notes_table w' = notes_table w" "monthly_note_count w' = monthly_note_count w"
  | (Completed) i n where "body_noteId req = Some i" "i \<noteq> []" "\<not> fetch_error e"
      "notes_table w i = Some n" "processing_status n = lit ''completed''"
      "res = already_processed i n" "w' = w"
  | (LimitsFailed) i n where "body_noteId req = Some i" "i \<noteq> []" "\<not> fetch_error e"
      "notes_table w i = Some n" "processing_status n \<noteq> lit ''completed''"
      "limits e = None"
      "res = failure 500 ''Processing failed'' ''PROCESSING_ERROR''"
      "new_events w w' = [recovery_event e i]"
      "notes_table w' = (notes_table w)(i \<mapsto> recovered e n)"
      "monthly_note_count w' = monthly_note_count w"
  | (LimitWriteFailed) i n l where "body_noteId req = Some i" "i \<noteq> []" "\<not> fetch_error e"
      "notes_table w i = Some n" "processing_status n \<noteq> lit ''completed''"
      "limits e = Some l" "limit_reached l" "update_error e LimitWrite"
      "res = failure 500 ''Processing failed'' ''PROCESSING_ERROR''"
      "new_events w w' = [Warned (lit ''User processing limit reached''),
                          NoteUpdateFailed i (limit_update n), recovery_event e i]"
      "notes_table w' = (notes_table w)(i \<mapsto> recovered e n)"
      "monthly_note_count w' = monthly_note_count w"
  | (LimitReached) i n l where "body_noteId req = Some i" "i \<noteq> []" "\<not> fetch_error e"
      "notes_table w i = Some n" "processing_status n \<noteq> lit ''completed''"
      "limits e = Some l" "limit_reached l" "\<not> update_error e LimitWrite"
      "res = limit_reached_response l"
      "new_events w w' = [Warned (lit ''User processing limit reached''),
                          NoteUpdated i (limit_update n)]"
      "notes_table w' = (notes_table w)(i \<mapsto> apply_update (limit_update n) n)"
      "monthly_note_count w' = monthly_note_count w"
  | (ProcessingWriteFailed) i n l where "body_noteId req = Some i" "i \<noteq> []" "\<not> fetch_error e"
      "notes_table w i = Some n" "processing_status n \<noteq> lit ''completed''"
      "limits e = Some l" "\<not> limit_reached l" "update_error e ProcessingWrite"
      "res = failure 500 ''Processing failed'' ''PROCESSING_ERROR''"
      "new_events w w' = [NoteUpdateFailed i processing_update, recovery_event e i]"
      "notes_table w' = (notes_table w)(i \<mapsto> recovered e n)"
      "monthly_note_count w' = monthly_note_count w"
  | (TerminalWriteFailed) i n l r where "body_noteId req = Some i" "i \<noteq> []" "\<not> fetch_error e"
      "notes_table w i = Some n" "processing_status n \<noteq> lit ''completed''"
      "limits e = Some l" "\<not> limit_reached l" "\<not> update_error e ProcessingWrite"
      "r = openai_result_of e (original_text n) (note_type n)"
      "update_error e TerminalWrite"
      "res = failure 500 ''Processing failed'' ''PROCESSING_ERROR''"
      "new_events w w' = NoteUpdated i processing_update
          # openai_events e (original_text n) (note_type n)
          @ [NoteUpdateFailed i (terminal_update r), recovery_event e i]"
      "notes_table w' = (notes_table w)(i \<mapsto> recovered e (apply_update processing_update n))"
      "monthly_note_count w' = monthly_note_count w"
  | (Fallback) i n l r where "body_noteId req = Some i" "i \<noteq> []" "\<not> fetch_error e"
      "notes_table w i = Some n" "processing_status n \<noteq> lit ''completed''"
      "limits e = Some l" "\<not> limit_reached l" "\<not> update_error e ProcessingWrite"
      "r = openai_result_of e (original_text n) (note_type n)"
      "\<not> update_error e TerminalWrite" "\<not> res_success r"
      "res = processed_response i n r"
      "new_events w w' = NoteUpdated i processing_update
          # openai_events e (original_text n) (note_type n)
          @ [NoteUpdated i (terminal_update r)]"
      "notes_table w' = (notes_table w)
          (i \<mapsto> apply_update (terminal_update r) (apply_update processing_update n))"
      "monthly_note_count w' = monthly_note_count w"
  | (IncrementFailed) i n l r where "body_noteId req = Some i" "i \<noteq> []" "\<not> fetch_error e"
      "notes_table w i = Some n" "processing_status n \<noteq> lit ''completed''"
      "limits e = Some l" "\<not> limit_reached l" "\<not> update_error e ProcessingWrite"
      "r = openai_result_of e (original_text n) (note_type n)"
      "\<not> update_error e TerminalWrite" "res_success r" "increment_error e"
      "res = failure 500 ''Processing failed'' ''PROCESSING_ERROR''"
      "new_events w w' = NoteUpdated i processing_update
          # openai_events e (original_text n) (note_type n)
          @ [NoteUpdated i (terminal_update r), NoteCountIncrementFailed (user_id n),
             recovery_event e i]"
      "notes_table w' = (notes_table w)
          (i \<mapsto> recovered e (apply_update (terminal_update r) (apply_update processing_update n)))"
      "monthly_note_count w' = monthly_note_count w"
  | (Success) i n l r where "body_noteId req = Some i" "i \<noteq> []" "\<not> fetch_error e"
      "notes_table w i = Some n" "processing_status n \<noteq> lit ''completed''"
      "limits e = Some l" "\<not> limit_reached l" "\<not> update_error e ProcessingWrite"
      "r = openai_result_of e (original_text n) (note_type n)"
      "\<not> update_error e TerminalWrite" "res_success r" "\<not> increment_error e"
      "res = processed_response i n r"
      "new_events w w' = NoteUpdated i processing_update
          # openai_events e (original_text n) (note_type n)
          @ [NoteUpdated i (terminal_update r), NoteCountIncremented (user_id n)]"
      "notes_table w' = (notes_table w)
          (i \<mapsto> apply_update (terminal_update r) (apply_update processing_update n))"
      "monthly_note_count w' = (monthly_note_count w)
          (user_id n := monthly_note_count w (user_id n) + 1)"
  using run
proof (cases rule: processNote_worlds)
  case MissingId
  then show ?thesis by (intro that(1)) simp_all
next
  case (FetchFailed i)
  then show ?thesis by (intro that(2) [of i]) (auto simp: effect_simps split: option.splits)
next
  case (NotFound i)
  then show ?thesis by (intro that(3) [of i]) (simp_all add: effect_simps)
next
  case (Completed i n)
  then show ?thesis by (intro that(4) [of i n]) simp_all
next
  case (LimitsFailed i n)
  then show ?thesis by (intro that(5) [of i n]) (simp_all add: effect_simps)
next
  case (LimitWriteFailed i n l)
  then show ?thesis by (intro that(6) [of i n l]) (simp_all add: effect_simps)
next
  case (LimitReached i n l)
  then show ?thesis by (intro that(7) [of i n l]) (simp_all add: effect_simps)
next
  case (ProcessingWriteFailed i n l)
  then show ?thesis by (intro that(8) [of i n l]) (simp_all add: effect_simps)
next
  case (TerminalWriteFailed i n l r w3)
  then show ?thesis by (intro that(9) [of i n l r]) (auto simp: effect_simps)
next
  case (Fallback i n l r w3)
  then show ?thesis by (intro that(10) [of i n l r]) (auto simp: effect_simps)
next
  case (IncrementFailed i n l r w3)
  then show ?thesis by (intro that(11) [of i n l r]) (auto simp: effect_simps)
next
  case (Success i n l r w3)
  then show ?thesis by (intro that(12) [of i n l r]) (auto simp: effect_simps)
qed

section \<open>Facts about traces and about the completion service\<close>

lemma persisted_updates_simps [simp]:
  "persisted_updates [] = []"
  "persisted_updates (ev # evs) = (case ev of NoteUpdated i u \<Rightarrow> [(i, u)] | _ \<Rightarrow> []) @ persisted_updates evs"
  "persisted_updates (evs @ evs') = persisted_updates evs @ persisted_updates evs'"
  by (simp_all add: persisted_updates_def)

lemma increments_simps [simp]:
  "increments [] = []"
  "increments (ev # evs) = (case ev of NoteCountIncremented u \<Rightarrow> [u] | _ \<Rightarrow> []) @ increments evs"
  "increments (evs @ evs') = increments evs @ increments evs'"
  by (simp_all add: increments_def)

lemma completion_requests_simps [simp]:
  "completion_requests [] = 0"
  "completion_requests (ev # evs) = (case ev of CompletionRequest p \<Rightarrow> 1 | _ \<Rightarrow> 0) + completion_requests evs"
  "completion_requests (evs @ evs') = completion_requests evs + completion_requests evs'"
  by (simp_all add: completion_requests_def split: event.splits)

lemma status_writes_simps [simp]:
  "status_writes [] = []"
  "status_writes (ev # evs) = (case ev of NoteUpdated i u \<Rightarrow> [upd_status u] | _ \<Rightarrow> []) @ status_writes evs"
  "status_writes (evs @ evs') = status_writes evs @ status_writes evs'"
  by (simp_all add: status_writes_def split: event.splits)

lemma recovery_event_simps [simp]:
  "persisted_updates [recovery_event e i] =
     (if update_error e RecoveryWrite then [] else [(i, failed_update)])"
  "status_writes [recovery_event e i] =
     (if update_error e RecoveryWrite then [] else [Some (lit ''failed'')])"
  "increments [recovery_event e i] = []"
  "completion_requests [recovery_event e i] = 0"
  by (simp_all add: recovery_event_def failed_update_def no_update_def)

lemma openai_events_eq:
  "openai_events e t ty =
     (if t = [] \<or> js_trim t = [] then []
      else (if prompts ty = Undefined
            then [Warned (lit ''Unknown note type: '' @ ty @ lit '', using general instead''),
                  CompletionRequest (js_replace general_prompt (lit ''{text}'') (js_trim t))]
            else (case prompts ty of
                    Own template \<Rightarrow> [CompletionRequest (js_replace template (lit ''{text}'') (js_trim t))]
                  | _ \<Rightarrow> [])))"
  by (simp add: openai_events_def openai_processNote_def blank_world_def Let_def prompts_def
        split: property.splits sum.splits)

lemma openai_events_simps [simp]:
  "persisted_updates (openai_events e t ty) = []"
  "status_writes (openai_events e t ty) = []"
  "increments (openai_events e t ty) = []"
  by (simp_all add: openai_events_eq split: property.splits)

lemma openai_events_requests: "completion_requests (openai_events e t ty) \<le> 1"
  by (simp add: openai_events_eq split: property.splits)

lemma upd_status_simps [simp]:
  "upd_status failed_update = Some (lit ''failed'')"
  "upd_status processing_update = Some (lit ''processing'')"
  "upd_status (limit_update n) = Some (lit ''failed'')"
  "upd_status (terminal_update r) = Some (terminal_status r)"
  by (simp_all add: failed_update_def processing_update_def limit_update_def terminal_update_def no_update_def)

lemma path_simps [simp]:
  "\<not> processed_path (failure c m x)" "\<not> already_completed_path (failure c m x)"
  "\<not> limit_reached_path (failure c m x)" "\<not> openai_succeeded (failure c m x)"
  "\<not> processed_path (already_processed i n)" "already_completed_path (already_processed i n)"
  "\<not> limit_reached_path (already_processed i n)" "\<not> openai_succeeded (already_processed i n)"
  "\<not> processed_path (limit_reached_response l)" "\<not> already_completed_path (limit_reached_response l)"
  "limit_reached_path (limit_reached_response l)" "\<not> openai_succeeded (limit_reached_response l)"
  "processed_path (processed_response i n r)" "\<not> already_completed_path (processed_response i n r)"
  "\<not> limit_reached_path (processed_response i n r)"
  "openai_succeeded (processed_response i n r) = res_success r"
  by (simp_all add: processed_path_def already_completed_path_def limit_reached_path_def
        openai_succeeded_def failure_def already_processed_def limit_reached_response_def
        processed_response_def)

lemma js_includes_here: "js_includes (s @ b) s"
proof (cases "s @ b")
  case Nil
  then show ?thesis by simp
next
  case (Cons c r)
  have "take (length s) (s @ b) = s" by simp
  with Cons show ?thesis by simp
qed

lemma js_includes_append: "js_includes (a @ s @ b) s"
  by (induction a) (auto simp: js_includes_here)

lemma openai_result_eq:
  "openai_result_of e t ty =
     (if t = [] \<or> js_trim t = [] then fallback_result (clock e) t ty
      else if prompts ty = Inherited then fallback_result (clock e) t ty
      else (case completion_reply e of
              Inl m \<Rightarrow> fallback_result (clock e) t (if prompts ty = Undefined then lit ''general'' else ty)
            | Inr c \<Rightarrow> \<lparr>res_processedText = js_trim (content c), res_tokensUsed = total_tokens c,
                        res_processingTime = clock e, res_success = True, res_model = model c,
                        res_noteType = (if prompts ty = Undefined then lit ''general'' else ty)\<rparr>))"
  by (auto simp: openai_result_of_def openai_processNote_def blank_world_def Let_def prompts_def
        split: property.splits sum.splits)

lemma openai_success_iff:
  "res_success (openai_result_of e t ty) \<longleftrightarrow>
     js_trim t \<noteq> [] \<and> prompts ty \<noteq> Inherited \<and> (\<exists>c. completion_reply e = Inr c)"
  by (auto simp: openai_result_eq fallback_result_def js_trim_def split: sum.splits)

lemma fallback_general:
  "prompts ty = Undefined \<Longrightarrow> createFallbackText t (lit ''general'') = createFallbackText t ty"
  by (auto simp: createFallbackText_def prompts_def split: if_splits)

lemma openai_failure:
  assumes "\<not> res_success (openai_result_of e t ty)"
  shows "res_processedText (openai_result_of e t ty) = createFallbackText t ty"
    and "res_tokensUsed (openai_result_of e t ty) = 0"
    and "res_processingTime (openai_result_of e t ty) = clock e"
    and "res_model (openai_result_of e t ty) = None"
  using assms
  by (auto simp: openai_result_eq fallback_result_def fallback_general split: sum.splits if_splits)

section \<open>Example runs\<close>

lemma new_events_same [simp]: "new_events w w = []"
  by (simp add: new_events_def)

lemma lit_Nil_iff [simp]: "lit s = [] \<longleftrightarrow> s = []" "[] = lit s \<longleftrightarrow> s = []"
  by (auto simp: lit_def)

lemma example_facts [simp]:
  "example_id \<noteq> []"
  "body_noteId example_request = Some example_id"
  "notes_table (store_with n) example_id = Some n"
  "trace (store_with n) = []"
  "monthly_note_count (store_with n) u = 0"
  by (simp_all add: example_id_def example_request_def store_with_def lit_def)

lemma env_facts [simp]:
  "\<not> fetch_error env_ok" "limits env_ok = Some within_limits" "\<not> update_error env_ok site"
  "completion_reply env_ok = Inr example_reply" "\<not> increment_error env_ok" "clock env_ok = 1200"
  "\<not> fetch_error env_unavailable" "limits env_unavailable = Some within_limits"
  "\<not> update_error env_unavailable site"
  "completion_reply env_unavailable = Inl (lit ''Service unavailable'')"
  "\<not> increment_error env_unavailable" "clock env_unavailable = 1200"
  "\<not> fetch_error env_over_limit" "limits env_over_limit = Some over_limit"
  "\<not> update_error env_over_limit site"
  "\<not> fetch_error env_over_limit_write_fails" "limits env_over_limit_write_fails = Some over_limit"
  "update_error env_over_limit_write_fails site = (site = LimitWrite)"
  "\<not> fetch_error env_terminal_write_fails" "limits env_terminal_write_fails = Some within_limits"
  "update_error env_terminal_write_fails site = (site = TerminalWrite)"
  "completion_reply env_terminal_write_fails = Inr example_reply"
  "\<not> fetch_error env_store_down" "limits env_store_down = None"
  "update_error env_store_down site"
  "\<not> limit_reached within_limits" "limit_reached over_limit"
  by (simp_all add: env_ok_def env_unavailable_def env_over_limit_def
        env_over_limit_write_fails_def env_terminal_write_fails_def env_store_down_def
        within_limits_def over_limit_def)

lemma note_facts [simp]:
  "processing_status pending_todo = lit ''pending''"
  "processing_status completed_note = lit ''completed''"
  "original_text pending_todo = lit ''buy milk. call mom.''"
  "note_type pending_todo = lit ''todo''"
  "user_id pending_todo = lit ''user-1''"
  by (simp_all add: pending_todo_def completed_note_def)

lemma trim_example [simp]: "js_trim (lit ''buy milk. call mom.'') = lit ''buy milk. call mom.''"
  by (simp add: js_trim_def lit_def is_js_whitespace_def)

lemma prompts_todo [simp]: "prompts (lit ''todo'') = Own todo_prompt"
  by (simp add: prompts_def)

lemma run_completed:
  "processNote env_ok example_request (store_with completed_note)
     = (already_processed example_id completed_note, store_with completed_note)"
proof -
  obtain res w' where run: "processNote env_ok example_request (store_with completed_note) = (res, w')"
    by (cases "processNote env_ok example_request (store_with completed_note)")
  from run have "res = already_processed example_id completed_note \<and> w' = store_with completed_note"
    by (cases rule: processNote_cases) (auto simp: truthy_def)
  with run show ?thesis by simp
qed

lemma run_success:
  "fst (processNote env_ok example_request (store_with pending_todo))
     = processed_response example_id pending_todo
         (openai_result_of env_ok (lit ''buy milk. call mom.'') (lit ''todo''))"
proof -
  obtain res w' where run: "processNote env_ok example_request (store_with pending_todo) = (res, w')"
    by (cases "processNote env_ok example_request (store_with pending_todo)")
  from run have "res = processed_response example_id pending_todo
         (openai_result_of env_ok (lit ''buy milk. call mom.'') (lit ''todo''))"
    by (cases rule: processNote_cases) (auto simp: truthy_def openai_success_iff)
  with run show ?thesis by simp
qed

lemma run_unavailable:
  "fst (processNote env_unavailable example_request (store_with pending_todo))
     = processed_response example_id pending_todo
         (openai_result_of env_unavailable (lit ''buy milk. call mom.'') (lit ''todo''))"
proof -
  obtain res w' where run: "processNote env_unavailable example_request (store_with pending_todo) = (res, w')"
    by (cases "processNote env_unavailable example_request (store_with pending_todo)")
  from run have "res = processed_response example_id pending_todo
         (openai_result_of env_unavailable (lit ''buy milk. call mom.'') (lit ''todo''))"
    by (cases rule: processNote_cases) (auto simp: truthy_def openai_success_iff)
  with run show ?thesis by simp
qed

lemma run_terminal_write_fails:
  "new_events (store_with pending_todo)
      (snd (processNote env_terminal_write_fails example_request (store_with pending_todo)))
     = NoteUpdated example_id processing_update
         # openai_events env_terminal_write_fails (lit ''buy milk. call mom.'') (lit ''todo'')
         @ [NoteUpdateFailed example_id
              (terminal_update (openai_result_of env_terminal_write_fails
                 (lit ''buy milk. call mom.'') (lit ''todo''))),
            recovery_event env_terminal_write_fails example_id]
   \<and> monthly_note_count (snd (processNote env_terminal_write_fails example_request (store_with pending_todo)))
       = monthly_note_count (store_with pending_todo)"
proof -
  obtain res w' where run:
    "processNote env_terminal_write_fails example_request (store_with pending_todo) = (res, w')"
    by (cases "processNote env_terminal_write_fails example_request (store_with pending_todo)")
  from run have "new_events (store_with pending_todo) w'
     = NoteUpdated example_id processing_update
         # openai_events env_terminal_write_fails (lit ''buy milk. call mom.'') (lit ''todo'')
         @ [NoteUpdateFailed example_id
              (terminal_update (openai_result_of env_terminal_write_fails
                 (lit ''buy milk. call mom.'') (lit ''todo''))),
            recovery_event env_terminal_write_fails example_id]
     \<and> monthly_note_count w' = monthly_note_count (store_with pending_todo)"
    by (cases rule: processNote_cases) (auto simp: truthy_def)
  with run show ?thesis by simp
qed

lemma apply_update_simps [simp]:
  "processing_status (apply_update u n)
     = (case upd_status u of None \<Rightarrow> processing_status n | Some s \<Rightarrow> s)"
  "processed_text (apply_update u n)
     = (case upd_processedText u of None \<Rightarrow> processed_text n | Some t \<Rightarrow> Some t)"
  "tokens_used (apply_update u n)
     = (case upd_tokensUsed u of None \<Rightarrow> tokens_used n | Some k \<Rightarrow> Some k)"
  "processing_time (apply_update u n)
     = (case upd_processingTime u of None \<Rightarrow> processing_time n | Some t \<Rightarrow> Some t)"
  "user_id (apply_update u n) = user_id n"
  "original_text (apply_update u n) = original_text n"
  "note_type (apply_update u n) = note_type n"
  by (simp_all add: apply_update_def)

lemma apply_update_eq:
  "apply_update u n =
     n\<lparr>processed_text := (case upd_processedText u of None \<Rightarrow> processed_text n | Some t \<Rightarrow> Some t),
       processing_status := (case upd_status u of None \<Rightarrow> processing_status n | Some s \<Rightarrow> s),
       tokens_used := (case upd_tokensUsed u of None \<Rightarrow> tokens_used n | Some k \<Rightarrow> Some k),
       processing_time := (case upd_processingTime u of None \<Rightarrow> processing_time n | Some t \<Rightarrow> Some t)\<rparr>"
  by (simp add: apply_update_def)

lemma failed_note_facts [simp]:
  "processing_status failed_note = lit ''failed''"
  "original_text failed_note = lit ''buy milk. call mom.''"
  "note_type failed_note = lit ''todo''"
  by (simp_all add: failed_note_def pending_todo_def)

lemma run_over_limit:
  "processNote env_over_limit example_request (store_with pending_todo) = (res, w') \<Longrightarrow>
     res = limit_reached_response over_limit
     \<and> new_events (store_with pending_todo) w'
         = [Warned (lit ''User processing limit reached''),
            NoteUpdated example_id (limit_update pending_todo)]"
  by (cases rule: processNote_cases) (auto simp: truthy_def)

lemma run_store_down:
  "processNote env_store_down example_request (store_with pending_todo) = (res, w') \<Longrightarrow>
     res = failure 500 ''Processing failed'' ''PROCESSING_ERROR''
     \<and> notes_table w' = notes_table (store_with pending_todo)"
  by (cases rule: processNote_cases) (auto simp: truthy_def recovered_def fun_upd_idem)

lemma run_over_limit_write_fails:
  "processNote env_over_limit_write_fails example_request (store_with pending_todo) = (res, w') \<Longrightarrow>
     res = failure 500 ''Processing failed'' ''PROCESSING_ERROR''
     \<and> notes_table w' example_id = Some (pending_todo\<lparr>processing_status := lit ''failed''\<rparr>)"
  by (cases rule: processNote_cases)
     (auto simp: truthy_def recovered_def failed_update_def no_update_def apply_update_eq)

lemma run_unavailable_note:
  "processNote env_unavailable example_request (store_with pending_todo) = (res, w') \<Longrightarrow>
     notes_table w' example_id
       = Some (pending_todo\<lparr>processed_text :=
                  Some (createFallbackText (lit ''buy milk. call mom.'') (lit ''todo'')),
                processing_status := lit ''failed'',
                tokens_used := Some 0, processing_time := Some 1200\<rparr>)"
  by (cases rule: processNote_cases)
     (auto simp: truthy_def openai_success_iff openai_failure terminal_status_def
        terminal_update_def processing_update_def no_update_def apply_update_eq)

lemma todo_fallback_example:
  "createFallbackText (lit ''buy milk. call mom.'') (lit ''todo'')
     = lit ''# Task List\<newline>\<newline>'' @ [0x2022, 0x20] @ lit ''buy milk'' @ [0xA, 0x2022, 0x20]
         @ lit '' call mom'' @ [0xA, 0x2022, 0x20]
         @ lit ''\<newline>\<newline>**Note:** Enhanced formatting temporarily unavailable.''"
  by (simp add: createFallbackText_def replace_sentence_ends_def bullet_break_def
        unavailable_note_def js_trim_def is_js_whitespace_def lit_def)

lemma prompts_Undefined_iff:
  "prompts ty = Undefined \<longleftrightarrow> ty \<notin> set note_types \<and> ty \<notin> set object_prototype_names"
  by (auto simp: prompts_def note_types_def)

lemma js_trim_Nil [simp]: "js_trim [] = []"
  by (simp add: js_trim_def)

lemma canonical_example [simp]: "canonical_uuid example_id"
  by (simp add: canonical_uuid_def example_id_def lit_def)

lemma processor_example_facts [simp]:
  "pbody_noteId processor_example_request = Some example_id"
  "pbody_noteType processor_example_request = None"
  "pbody_noteId processor_shopping_request = Some example_id"
  "pbody_noteType processor_shopping_request = Some (lit ''shopping'')"
  "\<not> store_testMode live_config" "\<not> openai_testMode live_config"
  by (simp_all add: processor_example_request_def processor_shopping_request_def live_config_def)

section \<open>Further observations\<close>

text \<open>
  A note type that names a member inherited from \<^verbatim>\<open>Object.prototype\<close> passes the test
  \<^verbatim>\<open>!this.prompts[noteType]\<close>: no warning is logged, no request is sent, and the
  service returns the fallback result.
\<close>

lemma inherited_note_type:
  "prompts (lit ''constructor'') = Inherited
   \<and> (js_trim originalText \<noteq> [] \<longrightarrow>
        openai_processNote e originalText (lit ''constructor'') w
          = (fallback_result (clock e) originalText (lit ''constructor''), w))"
  by (simp add: prompts_def object_prototype_names_def)
     (auto simp: openai_processNote_def prompts_def object_prototype_names_def)

text \<open>
  The \<^verbatim>\<open>catch\<close> block writes \<^verbatim>\<open>failed\<close> whatever the status of the note: a completed
  note whose lookup fails is set to \<^verbatim>\<open>failed\<close>, and so is a note just written to
  \<^verbatim>\<open>completed\<close> when the counter routine fails.
\<close>

lemma catch_overwrites_completed:
  assumes "processNote e \<lparr>body_noteId = Some i\<rparr> w = (res, w')" and "i \<noteq> []"
    and "notes_table w i = Some n" and "processing_status n = lit ''completed''"
    and "fetch_error e" and "\<not> update_error e RecoveryWrite"
  shows "notes_table w' i = Some (n\<lparr>processing_status := lit ''failed''\<rparr>)"
  using assms
  by (cases rule: processNote_cases)
     (auto simp: recovered_def truthy_def failed_update_def no_update_def apply_update_eq)

lemma catch_overwrites_fresh_result:
  "status_writes (new_events (store_with pending_todo)
      (snd (processNote env_counter_fails example_request (store_with pending_todo))))
     = [Some (lit ''processing''), Some (lit ''completed''), Some (lit ''failed'')]"
proof -
  obtain res w' where run:
    "processNote env_counter_fails example_request (store_with pending_todo) = (res, w')"
    by (cases "processNote env_counter_fails example_request (store_with pending_todo)")
  have env: "\<not> fetch_error env_counter_fails" "limits env_counter_fails = Some within_limits"
    "\<not> update_error env_counter_fails site" "increment_error env_counter_fails"
    "completion_reply env_counter_fails = Inr example_reply" for site
    by (simp_all add: env_counter_fails_def)
  from run have "status_writes (new_events (store_with pending_todo) w')
     = [Some (lit ''processing''), Some (lit ''completed''), Some (lit ''failed'')]"
    by (cases rule: processNote_cases)
       (auto simp: env truthy_def openai_success_iff recovery_event_def terminal_status_def)
  with run show ?thesis by simp
qed

text \<open>
  With its services configured, the earlier processor never increments the counter:
  the call of the counter routine throws, the \<^verbatim>\<open>catch\<close> block sets the note to
  \<^verbatim>\<open>failed\<close> and the response is 500, also after a successful completion call.
\<close>

lemma processor_counter_routine_throws:
  "pres_status (fst (processor_processNote canonical_uuid live_config env_ok
             processor_example_request (store_with pending_todo))) = 500
   \<and> increments (new_events (store_with pending_todo)
        (snd (processor_processNote canonical_uuid live_config env_ok
                processor_example_request (store_with pending_todo)))) = []
   \<and> map_option processing_status
        (notes_table (snd (processor_processNote canonical_uuid live_config env_ok
             processor_example_request (store_with pending_todo))) example_id)
       = Some (lit ''failed'')"
  by (simp add: processor_processNote_def processor_processNote_try_def
        processNoteSchema_validate_def processor_getNoteById_def
        processor_updateNoteProcessing_def processor_openai_processNote_def
        processor_incrementUserNoteCount_def processor_prompts_def apply_row_update_def
        no_row_update_def new_events_def truthy_def refusal_def Let_def)

text \<open>
  When the lookup fails in the store, the call answers 500, for a completed note as for
  any other.
\<close>

lemma run_completed_fetch_fails:
  "status (fst (processNote env_fetch_fails example_request (store_with completed_note))) = 500"
proof -
  obtain res w' where run:
    "processNote env_fetch_fails example_request (store_with completed_note) = (res, w')"
    by (cases "processNote env_fetch_fails example_request (store_with completed_note)")
  have "fetch_error env_fetch_fails" by (simp add: env_fetch_fails_def)
  with run have "status res = 500"
    by (cases rule: processNote_cases) (auto simp: truthy_def failure_def)
  with run show ?thesis by simp
qed

text \<open>A call for a completed note never reaches the limit check.\<close>

lemma run_completed_over_limit:
  "processNote env_over_limit example_request (store_with completed_note)
     = (already_processed example_id completed_note, store_with completed_note)"
proof -
  obtain res w' where run:
    "processNote env_over_limit example_request (store_with completed_note) = (res, w')"
    by (cases "processNote env_over_limit example_request (store_with completed_note)")
  from run have "res = already_processed example_id completed_note \<and> w' = store_with completed_note"
    by (cases rule: processNote_cases) (auto simp: truthy_def)
  with run show ?thesis by simp
qed

text \<open>A blank text never reaches the choice of the template.\<close>

lemma blank_text_unknown_category:
  "openai_processNote env_ok (lit ''  '') (lit ''shopping'') w
     = (fallback_result 1200 (lit ''  '') (lit ''shopping''), w)"
  by (simp add: openai_processNote_def js_trim_def is_js_whitespace_def lit_def)

section \<open>The monthly counter\<close>

text \<open>
  Claim C2, as amended. A call of \<open>processNote\<close> increments the monthly counter of
  the note's owner exactly once when it answers with \<^verbatim>\<open>openaiSuccess: true\<close>, and
  not at all otherwise. It answers so exactly when the note is found and not completed,
  the limit is not reached, the completion request succeeds (on a text that is not
  blank, with a note type that is not an inherited member of the prompts object), and
  the two note updates and the counter routine succeed. So a failed completion call,
  the not-found, already-completed and limit-reached paths, and every call that ends in
  \<^verbatim>\<open>PROCESSING_ERROR\<close> leave the counter as it was.
\<close>

theorem processNote_counter:
  assumes "processNote e req w = (res, w')"
  shows "(openai_succeeded res \<longrightarrow>
            (\<exists>i n. body_noteId req = Some i \<and> notes_table w i = Some n
               \<and> increments (new_events w w') = [user_id n]
               \<and> monthly_note_count w' = (monthly_note_count w)
                    (user_id n := monthly_note_count w (user_id n) + 1)))
       \<and> (\<not> openai_succeeded res \<longrightarrow>
            increments (new_events w w') = [] \<and> monthly_note_count w' = monthly_note_count w)
       \<and> (openai_succeeded res \<longleftrightarrow>
            (\<exists>i n l c. body_noteId req = Some i \<and> i \<noteq> [] \<and> \<not> fetch_error e
               \<and> notes_table w i = Some n \<and> processing_status n \<noteq> lit ''completed''
               \<and> limits e = Some l \<and> \<not> limit_reached l
               \<and> \<not> update_error e ProcessingWrite \<and> \<not> update_error e TerminalWrite
               \<and> \<not> increment_error e
               \<and> js_trim (original_text n) \<noteq> [] \<and> prompts (note_type n) \<noteq> Inherited
               \<and> completion_reply e = Inr c))"
  using assms
  by (cases rule: processNote_cases) (auto simp: openai_success_iff truthy_def recovery_event_def)

text \<open>
  The claim as stated fails: the completion call succeeds, the store refuses the final
  update of the note, and the counter is not incremented.
\<close>

theorem counter_counterexample:
  "completion_reply env_terminal_write_fails = Inr example_reply
   \<and> completion_requests (new_events (store_with pending_todo)
        (snd (processNote env_terminal_write_fails example_request (store_with pending_todo)))) = 1
   \<and> increments (new_events (store_with pending_todo)
        (snd (processNote env_terminal_write_fails example_request (store_with pending_todo)))) = []
   \<and> monthly_note_count
        (snd (processNote env_terminal_write_fails example_request (store_with pending_todo)))
        (lit ''user-1'') = 0"
  by (simp add: run_terminal_write_fails openai_events_eq recovery_event_def)

theorem processNote_counter_witness:
  "monthly_note_count (snd (processNote env_ok example_request (store_with pending_todo)))
       (lit ''user-1'') = 1
   \<and> increments (new_events (store_with pending_todo)
        (snd (processNote env_ok example_request (store_with pending_todo)))) = [lit ''user-1'']
   \<and> increments (new_events (store_with pending_todo)
        (snd (processNote env_unavailable example_request (store_with pending_todo)))) = []
   \<and> monthly_note_count (snd (processNote env_unavailable example_request (store_with pending_todo)))
       (lit ''user-1'') = 0"
  using processNote_counter
          [OF surjective_pairing [of "processNote env_ok example_request (store_with pending_todo)"]]
        processNote_counter
          [OF surjective_pairing [of "processNote env_unavailable example_request (store_with pending_todo)"]]
  by (simp add: run_success run_unavailable openai_success_iff)

section \<open>The number of note updates\<close>

text \<open>
  Claim C9, as amended. A call that answers with a processed note (the success and the
  fallback path) has persisted exactly two updates, the first with status
  \<^verbatim>\<open>processing\<close> and the second with the terminal status; a call that answers
  \<^verbatim>\<open>LIMIT_REACHED\<close> has persisted exactly one, with status \<^verbatim>\<open>failed\<close>; a call that
  finds the note completed has persisted none. Every call, however it ends, persists at
  most one update with status \<^verbatim>\<open>completed\<close> and at most one with status
  \<^verbatim>\<open>failed\<close>.
\<close>

theorem processNote_update_counts:
  assumes "processNote e req w = (res, w')"
  shows "(processed_path res \<longrightarrow>
            status_writes (new_events w w')
              = [Some (lit ''processing''),
                 Some (if openai_succeeded res then lit ''completed'' else lit ''failed'')]
            \<and> length (persisted_updates (new_events w w')) = 2)
       \<and> (limit_reached_path res \<longrightarrow>
            status_writes (new_events w w') = [Some (lit ''failed'')]
            \<and> length (persisted_updates (new_events w w')) = 1)
       \<and> (already_completed_path res \<longrightarrow> persisted_updates (new_events w w') = [])
       \<and> length (filter (\<lambda>st. st = Some (lit ''completed''))
                   (status_writes (new_events w w'))) \<le> 1
       \<and> length (filter (\<lambda>st. st = Some (lit ''failed''))
                   (status_writes (new_events w w'))) \<le> 1"
  using assms
  by (cases rule: processNote_cases)
     (simp_all add: terminal_status_def recovery_event_def)

text \<open>
  The claim as stated fails: on the already-completed path the number of persisted
  updates is zero, not one.
\<close>

theorem completed_path_updates_counterexample:
  "already_completed_path (fst (processNote env_ok example_request (store_with completed_note)))
   \<and> length (persisted_updates (new_events (store_with completed_note)
        (snd (processNote env_ok example_request (store_with completed_note))))) = 0"
  by (simp add: run_completed)

theorem processNote_update_counts_witness:
  "status_writes (new_events (store_with pending_todo)
      (snd (processNote env_ok example_request (store_with pending_todo))))
     = [Some (lit ''processing''), Some (lit ''completed'')]
   \<and> persisted_updates (new_events (store_with completed_note)
      (snd (processNote env_ok example_request (store_with completed_note)))) = []
   \<and> length (filter (\<lambda>st. st = Some (lit ''failed''))
        (status_writes (new_events (store_with pending_todo)
           (snd (processNote env_counter_fails example_request (store_with pending_todo)))))) \<le> 1"
  using processNote_update_counts
          [OF surjective_pairing [of "processNote env_ok example_request (store_with pending_todo)"]]
        processNote_update_counts
          [OF surjective_pairing [of "processNote env_ok example_request (store_with completed_note)"]]
        processNote_update_counts
          [OF surjective_pairing [of "processNote env_counter_fails example_request (store_with pending_todo)"]]
  by (simp add: run_success run_completed openai_success_iff)

section \<open>The status written by processNote\<close>

text \<open>
  Claim C5, as amended. Provided the lookup of the note and the counter routine do not
  fail, the statuses that one call of \<open>processNote\<close> writes are, in order, one of:
  none; \<^verbatim>\<open>failed\<close> alone (the limit is reached, or a step before the completion
  request failed); \<^verbatim>\<open>processing\<close> alone; \<^verbatim>\<open>processing\<close> then \<^verbatim>\<open>failed\<close>;
  \<^verbatim>\<open>processing\<close> then \<^verbatim>\<open>completed\<close>. A call that finds the note
  \<^verbatim>\<open>completed\<close> changes nothing, and a call on a \<^verbatim>\<open>failed\<close> note is run again:
  with the limit not reached and the updates persisted it writes \<^verbatim>\<open>processing\<close> and
  then the terminal status.
\<close>

theorem processNote_status_writes:
  assumes "processNote e req w = (res, w')" and "\<not> fetch_error e" and "\<not> increment_error e"
  shows "(status_writes (new_events w w') = []
          \<or> status_writes (new_events w w') = [Some (lit ''failed'')]
          \<or> status_writes (new_events w w') = [Some (lit ''processing'')]
          \<or> status_writes (new_events w w') = [Some (lit ''processing''), Some (lit ''failed'')]
          \<or> status_writes (new_events w w') = [Some (lit ''processing''), Some (lit ''completed'')])
       \<and> (\<forall>i n. body_noteId req = Some i \<and> notes_table w i = Some n
              \<and> processing_status n = lit ''completed'' \<longrightarrow> w' = w)
       \<and> (\<forall>i n l. body_noteId req = Some i \<and> i \<noteq> [] \<and> notes_table w i = Some n
              \<and> processing_status n = lit ''failed''
              \<and> limits e = Some l \<and> \<not> limit_reached l
              \<and> \<not> update_error e ProcessingWrite \<and> \<not> update_error e TerminalWrite
            \<longrightarrow> status_writes (new_events w w')
                  = [Some (lit ''processing''),
                     Some (terminal_status (openai_result_of e (original_text n) (note_type n)))])"
  using assms
  by (cases rule: processNote_cases)
     (auto simp: recovery_event_def terminal_status_def truthy_def)

text \<open>
  The claim as stated fails: when the limit is reached, a \<^verbatim>\<open>pending\<close> note is written
  to \<^verbatim>\<open>failed\<close> directly, which is not an edge of the state machine of the
  specification.
\<close>

theorem limit_path_edge_counterexample:
  "processing_status pending_todo = lit ''pending''
   \<and> status_writes (new_events (store_with pending_todo)
        (snd (processNote env_over_limit example_request (store_with pending_todo))))
       = [Some (lit ''failed'')]
   \<and> \<not> spec_edge (lit ''pending'') (lit ''failed'')"
  using run_over_limit [OF surjective_pairing]
  by (simp add: spec_edge_def)

theorem processNote_status_writes_witness:
  "status_writes (new_events (store_with failed_note)
      (snd (processNote env_ok example_request (store_with failed_note))))
     = [Some (lit ''processing''), Some (lit ''completed'')]
   \<and> snd (processNote env_ok example_request (store_with completed_note)) = store_with completed_note"
  using processNote_status_writes
          [OF surjective_pairing [of "processNote env_ok example_request (store_with failed_note)"]]
        processNote_status_writes
          [OF surjective_pairing [of "processNote env_ok example_request (store_with completed_note)"]]
  by (simp add: openai_success_iff terminal_status_def)

section \<open>The status reported after processNote\<close>

text \<open>
  Claim C8, as amended. For a note of the store, when every note update that the call
  attempts is persisted, the status stored after \<open>processNote\<close> returns is
  \<^verbatim>\<open>completed\<close> or \<^verbatim>\<open>failed\<close>, \<open>getProcessingStatus\<close> reports it, and it is the
  status of the last update of the call (or the status found, when the call wrote
  none).
\<close>

theorem processNote_then_getProcessingStatus:
  assumes "processNote e \<lparr>body_noteId = Some i\<rparr> w = (res, w')"
    and "i \<noteq> []" and "notes_table w i = Some n"
    and "\<not> update_error e LimitWrite" and "\<not> update_error e ProcessingWrite"
    and "\<not> update_error e TerminalWrite" and "\<not> update_error e RecoveryWrite"
  shows "\<exists>n'. notes_table w' i = Some n'
     \<and> (processing_status n' = lit ''completed'' \<or> processing_status n' = lit ''failed'')
     \<and> getProcessingStatus False (Some i) w'
         = (\<lparr>status = 200, success = True, message = None, error = None,
             data = Some (StatusInfo i (processing_status n') (tokens_used n')
                            (processing_time n') (truthy (processed_text n')))\<rparr>, w')
     \<and> (status_writes (new_events w w') = [] \<longrightarrow> processing_status n' = processing_status n)
     \<and> (status_writes (new_events w w') \<noteq> [] \<longrightarrow>
           last (status_writes (new_events w w')) = Some (processing_status n'))"
  using assms
  by (cases rule: processNote_cases)
     (auto simp: recovery_event_def recovered_def terminal_status_def truthy_def
        getProcessingStatus_def getNoteById_def)

text \<open>
  The claim as stated fails: the limit check fails, the update attempted by the
  \<^verbatim>\<open>catch\<close> block fails too, the call returns 500 and the note is still
  \<^verbatim>\<open>pending\<close>.
\<close>

theorem store_down_status_counterexample:
  "status (fst (processNote env_store_down example_request (store_with pending_todo))) = 500
   \<and> fst (getProcessingStatus False (Some example_id)
        (snd (processNote env_store_down example_request (store_with pending_todo))))
       = \<lparr>status = 200, success = True, message = None, error = None,
          data = Some (StatusInfo example_id (lit ''pending'') None None False)\<rparr>"
  using run_store_down [OF surjective_pairing]
  by (simp add: getProcessingStatus_def getNoteById_def truthy_def failure_def pending_todo_def)

theorem processNote_then_getProcessingStatus_witness:
  "\<exists>n'. notes_table (snd (processNote env_unavailable \<lparr>body_noteId = Some example_id\<rparr>
                (store_with pending_todo))) example_id = Some n'
      \<and> (processing_status n' = lit ''completed'' \<or> processing_status n' = lit ''failed'')
      \<and> fst (getProcessingStatus False (Some example_id)
           (snd (processNote env_unavailable \<lparr>body_noteId = Some example_id\<rparr>
                  (store_with pending_todo))))
          = \<lparr>status = 200, success = True, message = None, error = None,
             data = Some (StatusInfo example_id (processing_status n') (tokens_used n')
                            (processing_time n') (truthy (processed_text n')))\<rparr>"
  using processNote_then_getProcessingStatus
          [OF surjective_pairing
                [of "processNote env_unavailable \<lparr>body_noteId = Some example_id\<rparr>
                       (store_with pending_todo)"],
           of pending_todo]
  by fastforce

section \<open>The usage limit\<close>

text \<open>
  Claim C4, as amended. A call of \<open>processNote\<close> for a note that is not completed and
  whose owner is over the limit never sends a completion request and never increments
  the counter. When the store persists the update, the note gets status \<^verbatim>\<open>failed\<close>
  and the original text followed by the limit message, and the response is 429 with
  code \<^verbatim>\<open>LIMIT_REACHED\<close>, the monthly count and the subscription tier; when the store
  refuses the update, the response is 500 with code \<^verbatim>\<open>PROCESSING_ERROR\<close>.
\<close>

theorem processNote_limit_reached:
  assumes "processNote e req w = (res, w')"
    and "body_noteId req = Some i" and "i \<noteq> []" and "\<not> fetch_error e"
    and "notes_table w i = Some n" and "processing_status n \<noteq> lit ''completed''"
    and "limits e = Some l" and "limit_reached l"
  shows "completion_requests (new_events w w') = 0
     \<and> increments (new_events w w') = []
     \<and> monthly_note_count w' = monthly_note_count w
     \<and> (\<not> update_error e LimitWrite \<longrightarrow>
           res = limit_reached_response l
           \<and> status res = 429 \<and> error res = Some (lit ''LIMIT_REACHED'')
           \<and> data res = Some (LimitInfo (limits_monthly_note_count l) (notes_remaining l)
                                 (subscription_tier l))
           \<and> notes_table w' i
               = Some (n\<lparr>processed_text := Some (original_text n @ limit_suffix),
                         processing_status := lit ''failed''\<rparr>))
     \<and> (update_error e LimitWrite \<longrightarrow>
           res = failure 500 ''Processing failed'' ''PROCESSING_ERROR'')"
  using assms
  by (cases rule: processNote_cases)
     (auto simp: recovery_event_def limit_reached_response_def limit_update_def no_update_def
        apply_update_eq truthy_def)

text \<open>
  The claim as stated fails: for a user over the limit, a call for a completed note
  answers 200 and leaves the note as it is; and when the store refuses the update of a
  pending note, the response is 500 and the note carries no limit message.
\<close>

theorem limit_reached_counterexample:
  "limit_reached over_limit \<and> limits env_over_limit = Some over_limit
   \<and> limits env_over_limit_write_fails = Some over_limit
   \<and> status (fst (processNote env_over_limit example_request (store_with completed_note))) = 200
   \<and> notes_table (snd (processNote env_over_limit example_request (store_with completed_note)))
        example_id = Some completed_note
   \<and> status (fst (processNote env_over_limit_write_fails example_request (store_with pending_todo))) = 500
   \<and> error (fst (processNote env_over_limit_write_fails example_request (store_with pending_todo)))
       = Some (lit ''PROCESSING_ERROR'')
   \<and> map_option processed_text
        (notes_table (snd (processNote env_over_limit_write_fails example_request
                             (store_with pending_todo))) example_id) = Some None"
  using run_over_limit_write_fails [OF surjective_pairing]
  by (simp add: failure_def pending_todo_def run_completed_over_limit already_processed_def)

theorem processNote_limit_reached_witness:
  "fst (processNote env_over_limit example_request (store_with pending_todo))
     = limit_reached_response over_limit
   \<and> status (limit_reached_response over_limit) = 429
   \<and> notes_table (snd (processNote env_over_limit example_request (store_with pending_todo))) example_id
       = Some (pending_todo\<lparr>processed_text := Some (lit ''buy milk. call mom.'' @ limit_suffix),
                           processing_status := lit ''failed''\<rparr>)
   \<and> completion_requests (new_events (store_with pending_todo)
        (snd (processNote env_over_limit example_request (store_with pending_todo)))) = 0"
  using processNote_limit_reached
          [OF surjective_pairing [of "processNote env_over_limit example_request (store_with pending_todo)"],
           of example_id pending_todo over_limit]
  by (simp add: limit_reached_response_def)

section \<open>Failure of the completion call\<close>

text \<open>
  Claim C3, as amended. When the completion call fails (the request fails, the text is
  blank, or the note type is an inherited member of the prompts object) and both note
  updates are persisted, the note gets status \<^verbatim>\<open>failed\<close>, token count 0 and the
  fallback text of its category, and the response is 200 with
  \<^verbatim>\<open>openaiSuccess: false\<close>. The fallback text contains the trimmed original text; for
  category \<^verbatim>\<open>todo\<close> it contains the trimmed text with every full stop, exclamation
  mark and question mark replaced by a line break and a bullet.
\<close>

theorem processNote_completion_failure:
  assumes "processNote e req w = (res, w')"
    and "body_noteId req = Some i" and "i \<noteq> []" and "\<not> fetch_error e"
    and "notes_table w i = Some n" and "processing_status n \<noteq> lit ''completed''"
    and "limits e = Some l" and "\<not> limit_reached l"
    and "\<not> update_error e ProcessingWrite" and "\<not> update_error e TerminalWrite"
    and "(\<exists>m. completion_reply e = Inl m) \<or> js_trim (original_text n) = []
           \<or> prompts (note_type n) = Inherited"
  shows "res = \<lparr>status = 200, success = True,
                message = Some (lit ''Note processing completed with fallback''), error = None,
                data = Some (Processed i (original_text n)
                               (createFallbackText (original_text n) (note_type n)) (note_type n)
                               (lit ''failed'') 0 (clock e) False (lit ''fallback''))\<rparr>
     \<and> notes_table w' i
         = Some (n\<lparr>processed_text := Some (createFallbackText (original_text n) (note_type n)),
                   processing_status := lit ''failed'',
                   tokens_used := Some 0, processing_time := Some (clock e)\<rparr>)
     \<and> js_includes (createFallbackText (original_text n) (note_type n))
          (if note_type n = lit ''todo'' then replace_sentence_ends (js_trim (original_text n))
           else js_trim (original_text n))
     \<and> increments (new_events w w') = []"
proof -
  have fail: "\<not> res_success (openai_result_of e (original_text n) (note_type n))"
    using assms(11) by (auto simp: openai_success_iff)
  have incl: "js_includes (createFallbackText (original_text n) (note_type n))
          (if note_type n = lit ''todo'' then replace_sentence_ends (js_trim (original_text n))
           else js_trim (original_text n))"
    using js_includes_append [of "lit ''# Task List\<newline>\<newline>'' @ [0x2022, 0x20]"]
    by (simp add: createFallbackText_def Let_def js_includes_append)
  from assms(1-10) fail have "res = \<lparr>status = 200, success = True,
                message = Some (lit ''Note processing completed with fallback''), error = None,
                data = Some (Processed i (original_text n)
                               (createFallbackText (original_text n) (note_type n)) (note_type n)
                               (lit ''failed'') 0 (clock e) False (lit ''fallback''))\<rparr>
     \<and> notes_table w' i
         = Some (n\<lparr>processed_text := Some (createFallbackText (original_text n) (note_type n)),
                   processing_status := lit ''failed'',
                   tokens_used := Some 0, processing_time := Some (clock e)\<rparr>)
     \<and> increments (new_events w w') = []"
    by (cases rule: processNote_cases)
       (auto simp: openai_failure processed_response_def terminal_status_def terminal_update_def
          processing_update_def no_update_def apply_update_eq js_or_def truthy_def)
  with incl show ?thesis by simp
qed

text \<open>
  The claim as stated fails on its own example: for category \<^verbatim>\<open>todo\<close> and the text
  \<^verbatim>\<open>buy milk. call mom.\<close> the stored fallback text does not contain the original text,
  whose full stops have become bullets.
\<close>

theorem todo_fallback_counterexample:
  "completion_reply env_unavailable = Inl (lit ''Service unavailable'')
   \<and> map_option processed_text
        (notes_table (snd (processNote env_unavailable example_request (store_with pending_todo)))
           example_id)
       = Some (Some (lit ''# Task List\<newline>\<newline>'' @ [0x2022, 0x20] @ lit ''buy milk''
                      @ [0xA, 0x2022, 0x20] @ lit '' call mom'' @ [0xA, 0x2022, 0x20]
                      @ lit ''\<newline>\<newline>**Note:** Enhanced formatting temporarily unavailable.''))
   \<and> \<not> js_includes
          (lit ''# Task List\<newline>\<newline>'' @ [0x2022, 0x20] @ lit ''buy milk''
             @ [0xA, 0x2022, 0x20] @ lit '' call mom'' @ [0xA, 0x2022, 0x20]
             @ lit ''\<newline>\<newline>**Note:** Enhanced formatting temporarily unavailable.'')
          (lit ''buy milk. call mom.'')"
  using run_unavailable_note [OF surjective_pairing]
  by (simp add: todo_fallback_example) (simp add: lit_def)

theorem processNote_completion_failure_witness:
  "fst (processNote env_unavailable example_request (store_with pending_todo))
     = \<lparr>status = 200, success = True,
        message = Some (lit ''Note processing completed with fallback''), error = None,
        data = Some (Processed example_id (lit ''buy milk. call mom.'')
                       (createFallbackText (lit ''buy milk. call mom.'') (lit ''todo''))
                       (lit ''todo'') (lit ''failed'') 0 1200 False (lit ''fallback''))\<rparr>
   \<and> js_includes (createFallbackText (lit ''buy milk. call mom.'') (lit ''todo''))
        (replace_sentence_ends (lit ''buy milk. call mom.''))"
  using processNote_completion_failure
          [OF surjective_pairing [of "processNote env_unavailable example_request (store_with pending_todo)"],
           of example_id pending_todo within_limits]
  by simp

section \<open>Notes that are already completed\<close>

text \<open>
  Claim C1, as amended. When the note that a call looks up has status \<^verbatim>\<open>completed\<close>,
  the call leaves the world as it was: it sends no completion request, increments no
  counter and updates no note. \<open>processNote\<close> of the processing server answers 200
  with the stored processed text, token count and processing time; \<open>processNote\<close> of
  the earlier processor answers 400 \<^verbatim>\<open>Already processed\<close>, without the stored
  result.
\<close>

theorem completed_note_short_circuit:
  assumes "processing_status n = lit ''completed''"
  shows "(i \<noteq> [] \<and> \<not> fetch_error e \<and> notes_table w i = Some n \<longrightarrow>
            processNote e \<lparr>body_noteId = Some i\<rparr> w = (already_processed i n, w)
            \<and> status (already_processed i n) = 200
            \<and> data (already_processed i n)
                = Some (AlreadyProcessed i (processed_text n) (tokens_used n) (processing_time n)))
       \<and> (processNoteSchema_validate is_uuid preq = Inr (i, ty)
            \<and> processor_getNoteById cfg (fetch_error e) i w = Inr n \<longrightarrow>
            processor_processNote is_uuid cfg e preq w
              = (refusal 400 ''Already processed'' ''This note has already been processed'', w))"
  using assms
  by (auto simp: processNote_def processNote_try_def getNoteById_def truthy_def
        already_processed_def processor_processNote_def processor_processNote_try_def)

text \<open>
  The claim as stated fails: the response of the earlier processor to a completed note
  is the refusal, not the stored processed text; and when the lookup fails in the store,
  the processing server answers 500.
\<close>

theorem completed_note_counterexample:
  "processing_status completed_note = lit ''completed''
   \<and> processed_text completed_note = Some (lit ''1. Buy milk 2. Call mom'')
   \<and> fst (processor_processNote canonical_uuid live_config env_ok processor_example_request
            (store_with completed_note))
       = \<lparr>pres_status = 400,
          pres_body = ErrorBody (lit ''Already processed'')
                        (Text (lit ''This note has already been processed''))\<rparr>
   \<and> status (fst (processNote env_fetch_fails example_request (store_with completed_note))) = 500"
  by (simp add: processor_processNote_def processor_processNote_try_def
        processNoteSchema_validate_def processor_getNoteById_def refusal_def completed_note_def
        run_completed_fetch_fails [unfolded completed_note_def])

theorem completed_note_short_circuit_witness:
  "processNote env_ok \<lparr>body_noteId = Some example_id\<rparr> (store_with completed_note)
     = (already_processed example_id completed_note, store_with completed_note)
   \<and> data (already_processed example_id completed_note)
       = Some (AlreadyProcessed example_id (Some (lit ''1. Buy milk 2. Call mom'')) (Some 57) (Some 1200))
   \<and> processor_processNote canonical_uuid live_config env_ok processor_example_request
        (store_with completed_note)
       = (refusal 400 ''Already processed'' ''This note has already been processed'',
          store_with completed_note)"
  using completed_note_short_circuit
          [of completed_note example_id env_ok "store_with completed_note" canonical_uuid
              processor_example_request "lit ''general''" live_config]
  by (simp add: processNoteSchema_validate_def processor_getNoteById_def completed_note_def)

section \<open>Unrecognised categories\<close>

text \<open>
  Claim C6, as amended. Let the category be none of \<^verbatim>\<open>meeting\<close>, \<^verbatim>\<open>todo\<close>,
  \<^verbatim>\<open>idea\<close>, \<^verbatim>\<open>general\<close>. In the completion service of the processing server, if
  the category is not the name of a member inherited from \<^verbatim>\<open>Object.prototype\<close> and
  the text is not blank, the warning is logged, the general template is sent, and the
  call succeeds exactly when the completion request does; the controller then answers
  200 when the store persists its updates. The earlier processor takes the category
  from the request and refuses an unrecognised one with 400 \<^verbatim>\<open>Validation error\<close>.
\<close>

theorem unknown_category:
  assumes "noteType \<notin> set note_types"
  shows "(noteType \<notin> set object_prototype_names \<and> js_trim originalText \<noteq> [] \<longrightarrow>
            new_events w (snd (openai_processNote e originalText noteType w))
              = [Warned (lit ''Unknown note type: '' @ noteType @ lit '', using general instead''),
                 CompletionRequest (js_replace general_prompt (lit ''{text}'') (js_trim originalText))]
            \<and> res_noteType (fst (openai_processNote e originalText noteType w)) = lit ''general''
            \<and> (res_success (fst (openai_processNote e originalText noteType w))
                 \<longleftrightarrow> (\<exists>c. completion_reply e = Inr c)))
       \<and> (noteType \<notin> set object_prototype_names \<and> i \<noteq> [] \<and> \<not> fetch_error e
            \<and> notes_table w i = Some n \<and> note_type n = noteType
            \<and> processing_status n \<noteq> lit ''completed'' \<and> js_trim (original_text n) \<noteq> []
            \<and> limits e = Some l \<and> \<not> limit_reached l
            \<and> \<not> update_error e ProcessingWrite \<and> \<not> update_error e TerminalWrite
            \<and> \<not> increment_error e \<longrightarrow>
            status (fst (processNote e \<lparr>body_noteId = Some i\<rparr> w)) = 200
            \<and> success (fst (processNote e \<lparr>body_noteId = Some i\<rparr> w)))
       \<and> (i \<noteq> [] \<and> is_uuid i \<longrightarrow>
            processor_processNote is_uuid cfg e \<lparr>pbody_noteId = Some i, pbody_noteType = Some noteType\<rparr> w
              = (\<lparr>pres_status = 400,
                  pres_body = ErrorBody (lit ''Validation error'') (JoiDetail NoteTypeInvalid)\<rparr>, w))"
proof -
  have undefined: "noteType \<notin> set object_prototype_names \<Longrightarrow> prompts noteType = Undefined"
    using assms by (simp add: prompts_Undefined_iff)
  have service: "noteType \<notin> set object_prototype_names \<and> js_trim originalText \<noteq> [] \<longrightarrow>
            new_events w (snd (openai_processNote e originalText noteType w))
              = [Warned (lit ''Unknown note type: '' @ noteType @ lit '', using general instead''),
                 CompletionRequest (js_replace general_prompt (lit ''{text}'') (js_trim originalText))]
            \<and> res_noteType (fst (openai_processNote e originalText noteType w)) = lit ''general''
            \<and> (res_success (fst (openai_processNote e originalText noteType w))
                 \<longleftrightarrow> (\<exists>c. completion_reply e = Inr c))"
    by (auto simp: openai_processNote_eq new_events_def openai_events_eq openai_result_eq
          undefined fallback_result_def split: sum.splits)
  have controller: "status (fst (processNote e \<lparr>body_noteId = Some i\<rparr> w)) = 200
            \<and> success (fst (processNote e \<lparr>body_noteId = Some i\<rparr> w))"
    if "i \<noteq> []" "\<not> fetch_error e" "notes_table w i = Some n"
      "processing_status n \<noteq> lit ''completed''" "limits e = Some l" "\<not> limit_reached l"
      "\<not> update_error e ProcessingWrite" "\<not> update_error e TerminalWrite" "\<not> increment_error e"
  proof -
    obtain res w' where run: "processNote e \<lparr>body_noteId = Some i\<rparr> w = (res, w')"
      by (cases "processNote e \<lparr>body_noteId = Some i\<rparr> w")
    from run that have "status res = 200 \<and> success res"
      by (cases rule: processNote_cases) (auto simp: truthy_def processed_response_def)
    with run show ?thesis by simp
  qed
  have processor: "i \<noteq> [] \<and> is_uuid i \<longrightarrow>
            processor_processNote is_uuid cfg e \<lparr>pbody_noteId = Some i, pbody_noteType = Some noteType\<rparr> w
              = (\<lparr>pres_status = 400,
                  pres_body = ErrorBody (lit ''Validation error'') (JoiDetail NoteTypeInvalid)\<rparr>, w)"
    using assms
    by (simp add: processor_processNote_def processor_processNote_try_def
          processNoteSchema_validate_def)
  from service controller processor show ?thesis by blast
qed

text \<open>
  The claim as stated fails: the earlier processor refuses a request with the category
  \<^verbatim>\<open>shopping\<close> for that reason alone; and in the processing server a blank text
  with that category ends in the fallback result without a warning and without a
  template.
\<close>

theorem unknown_category_counterexample:
  "lit ''shopping'' \<notin> set note_types
   \<and> fst (processor_processNote canonical_uuid live_config env_ok processor_shopping_request
            (store_with pending_todo))
       = \<lparr>pres_status = 400,
          pres_body = ErrorBody (lit ''Validation error'') (JoiDetail NoteTypeInvalid)\<rparr>
   \<and> new_events (store_with pending_todo)
        (snd (openai_processNote env_ok (lit ''  '') (lit ''shopping'') (store_with pending_todo)))
       = []"
  by (simp add: processor_processNote_def processor_processNote_try_def
        processNoteSchema_validate_def note_types_def blank_text_unknown_category)

theorem unknown_category_witness:
  "new_events (store_with pending_todo)
      (snd (openai_processNote env_ok (lit ''buy milk. call mom.'') (lit ''shopping'')
              (store_with pending_todo)))
     = [Warned (lit ''Unknown note type: shopping, using general instead''),
        CompletionRequest (js_replace general_prompt (lit ''{text}'') (lit ''buy milk. call mom.''))]
   \<and> res_success (fst (openai_processNote env_ok (lit ''buy milk. call mom.'') (lit ''shopping'')
              (store_with pending_todo)))
   \<and> status (fst (processNote env_ok \<lparr>body_noteId = Some example_id\<rparr>
                    (store_with (pending_todo\<lparr>note_type := lit ''shopping''\<rparr>)))) = 200
   \<and> fst (processor_processNote canonical_uuid live_config env_ok
            \<lparr>pbody_noteId = Some example_id, pbody_noteType = Some (lit ''shopping'')\<rparr>
            (store_with pending_todo))
       = \<lparr>pres_status = 400,
          pres_body = ErrorBody (lit ''Validation error'') (JoiDetail NoteTypeInvalid)\<rparr>"
  using unknown_category
          [of "lit ''shopping''" "lit ''buy milk. call mom.''" "store_with pending_todo" env_ok
              example_id "pending_todo\<lparr>note_type := lit ''shopping''\<rparr>" within_limits
              canonical_uuid live_config]
        unknown_category
          [of "lit ''shopping''" "lit ''buy milk. call mom.''"
              "store_with (pending_todo\<lparr>note_type := lit ''shopping''\<rparr>)" env_ok
              example_id "pending_todo\<lparr>note_type := lit ''shopping''\<rparr>" within_limits
              canonical_uuid live_config]
  by (simp add: note_types_def object_prototype_names_def pending_todo_def) (simp add: lit_def)

end
